theory Spec2Isabelle
  imports Main
begin

section \<open>Strings of the importer\<close>

text \<open>
  A JavaScript string is a sequence of UTF-16 code units. The model keeps the code units
  below 256 (ASCII and Latin-1), one \<^typ>\<open>char\<close> each, so that \<open>length\<close> is the
  \<open>.length\<close> of the source and \<open>substring\<close> cuts where the source cuts.
\<close>

definition MAX_KARAKEEP_TITLE_LENGTH :: nat where
  "MAX_KARAKEEP_TITLE_LENGTH = 255"

definition substring :: "string \<Rightarrow> nat \<Rightarrow> nat \<Rightarrow> string" where
  \<comment> \<open>\<open>s.substring(a, b)\<close>: both indices are clamped to the length and swapped when
      \<open>a > b\<close>.\<close>
  "substring s a b =
     (let a' = min a (length s); b' = min b (length s)
      in take (max a' b' - min a' b') (drop (min a' b') s))"

definition endsWith :: "string \<Rightarrow> string \<Rightarrow> bool" where
  "endsWith s suffix =
     (length suffix \<le> length s \<and> drop (length s - length suffix) s = suffix)"

definition toLowerCase_unit :: "char \<Rightarrow> char" where
  \<comment> \<open>The lower-case mapping of one code unit below 256: A-Z, and the Latin-1 capitals
      U+00C0-U+00DE except the multiplication sign U+00D7.\<close>
  "toLowerCase_unit c =
     (let n = (of_char c :: nat)
      in if (65 \<le> n \<and> n \<le> 90) \<or> (192 \<le> n \<and> n \<le> 222 \<and> n \<noteq> 215)
         then char_of (n + 32) else c)"

definition toLowerCase :: "string \<Rightarrow> string" where
  "toLowerCase s = map toLowerCase_unit s"

definition isWhiteSpace :: "char \<Rightarrow> bool" where
  \<comment> \<open>What \<open>trim()\<close> strips, below 256: TAB, LF, VT, FF, CR, space and the no-break
      space.\<close>
  "isWhiteSpace c =
     (let n = (of_char c :: nat) in (9 \<le> n \<and> n \<le> 13) \<or> n = 32 \<or> n = 160)"

definition trim :: "string \<Rightarrow> string" where
  "trim s = rev (dropWhile isWhiteSpace (rev (dropWhile isWhiteSpace s)))"

definition removeTrailingSlash :: "string \<Rightarrow> string" where
  \<comment> \<open>\<open>s.replace(/\/$/, '')\<close>\<close>
  "removeTrailingSlash s = (if s \<noteq> [] \<and> last s = CHR ''/'' then butlast s else s)"

definition extensionAt :: "string \<Rightarrow> bool" where
  \<comment> \<open>Whether the regular expression \<open>/\.[^/.]+$/\<close> matches at the start of the
      remaining input: a dot, then one or more characters other than \<open>/\<close> and
      \<open>.\<close>, then the end.\<close>
  "extensionAt s =
     (case s of [] \<Rightarrow> False
      | c # cs \<Rightarrow> c = CHR ''.'' \<and> cs \<noteq> [] \<and>
                 list_all (\<lambda>x. x \<noteq> CHR ''/'' \<and> x \<noteq> CHR ''.'') cs)"

fun getFileNameWithoutExtension :: "string \<Rightarrow> string" where
  \<comment> \<open>\<open>fullFileName.replace(/\.[^/.]+$/, "")\<close>: the engine tries each start position
      from the left and replaces the first match, which reaches the end of the name.\<close>
  "getFileNameWithoutExtension [] = []"
| "getFileNameWithoutExtension (c # cs) =
     (if extensionAt (c # cs) then [] else c # getFileNameWithoutExtension cs)"

definition truncateTitleTo :: "nat \<Rightarrow> string \<Rightarrow> string" where
  \<comment> \<open>The body of \<open>truncateTitle\<close>, with the constant it reads as a parameter.\<close>
  "truncateTitleTo limit title =
     (if length title > limit then
        (if limit \<ge> 3 then substring title 0 (limit - 3) @ ''...''
         else substring title 0 limit)
      else title)"

definition truncateTitle :: "string \<Rightarrow> string" where
  "truncateTitle title = truncateTitleTo MAX_KARAKEEP_TITLE_LENGTH title"

definition title_per_spec :: "string \<Rightarrow> string" where
  \<comment> \<open>The derivation as the specification words it, for comparison with
      \<open>getFileNameWithoutExtension\<close>: everything after and including the final
      \<open>.\<close> is removed; a name with no \<open>.\<close> is unchanged.\<close>
  "title_per_spec fullFileName =
     (if CHR ''.'' \<in> set fullFileName
      then rev (tl (dropWhile (\<lambda>c. c \<noteq> CHR ''.'') (rev fullFileName)))
      else fullFileName)"

section \<open>JSON values and their coercions\<close>

text \<open>
  What \<open>response.json()\<close> hands back. Numbers are modelled as the integers that
  \<open>String\<close> prints digit by digit (bookmark ids of magnitude below \<open>2\<^sup>5\<^sup>3\<close>);
  beyond that range the printed text of a number differs from \<open>numberToString\<close>, but
  it is never empty. An object is the list of its own properties, each key once, read
  with \<open>map_of\<close>.
\<close>

datatype json =
    JNull
  | JBool bool
  | JNumber int
  | JString string
  | JArray "json list"
  | JObject "(string \<times> json) list"

fun truthy :: "json \<Rightarrow> bool" where
  \<comment> \<open>ToBoolean: \<open>null\<close>, \<open>false\<close>, \<open>0\<close> and the empty string are falsy, every
      array and object is truthy.\<close>
  "truthy JNull = False"
| "truthy (JBool b) = b"
| "truthy (JNumber n) = (n \<noteq> 0)"
| "truthy (JString s) = (s \<noteq> [])"
| "truthy (JArray xs) = True"
| "truthy (JObject kvs) = True"

fun digitsOf :: "nat \<Rightarrow> string" where
  "digitsOf n =
     (if n < 10 then [char_of (48 + n)]
      else digitsOf (n div 10) @ [char_of (48 + n mod 10)])"

declare digitsOf.simps [simp del]

definition numberToString :: "int \<Rightarrow> string" where
  "numberToString i = (if i < 0 then CHR ''-'' # digitsOf (nat (- i)) else digitsOf (nat i))"

fun join :: "string \<Rightarrow> string list \<Rightarrow> string" where
  "join sep [] = []"
| "join sep [x] = x"
| "join sep (x # y # ys) = x @ sep @ join sep (y # ys)"

datatype js_error =
    NetworkError string
  | ApiError nat string "string option"
  | JsonParseError string
  | FileReadFailure string nat
  | TypeError
  | LoopDriverError string

fun js_String :: "json \<Rightarrow> js_error + string" where
  \<comment> \<open>\<open>String(v)\<close>, \<open>Inl\<close> when it throws. An object is converted by its
      \<open>toString\<close> method: one that owns a \<open>toString\<close> property (a JSON value,
      so not callable) hides the inherited method and the conversion throws; any other
      object prints as \<open>[object Object]\<close>. An array prints its elements joined by
      commas, \<open>null\<close> elements as nothing, and throws when an element does.\<close>
  "js_String JNull = Inr ''null''"
| "js_String (JBool b) = Inr (if b then ''true'' else ''false'')"
| "js_String (JNumber n) = Inr (numberToString n)"
| "js_String (JString s) = Inr s"
| "js_String (JArray xs) =
     (let parts = map (\<lambda>x. if x = JNull then Inr [] else js_String x) xs
      in if list_ex isl parts then Inl TypeError
         else Inr (join '','' (map projr parts)))"
| "js_String (JObject kvs) =
     (if map_of kvs ''toString'' = None then Inr ''[object Object]'' else Inl TypeError)"

fun get_id :: "json option \<Rightarrow> json option" where
  \<comment> \<open>\<open>createdBookmarkData?.id\<close>: \<open>None\<close> on the left is \<open>null\<close>, \<open>None\<close> as
      the result is \<open>undefined\<close>. Only an object can own the property.\<close>
  "get_id None = None"
| "get_id (Some (JObject kvs)) = map_of kvs ''id''"
| "get_id (Some other) = None"

section \<open>Errors, log entries and the page\<close>

text \<open>
  The errors the source throws or receives: \<open>NetworkError\<close> is a rejected \<open>fetch\<close>
  with its message; \<open>ApiError\<close> is thrown for a response that is not ok and holds the
  status, the status text and, when the body could be read, its first 200 characters;
  \<open>JsonParseError\<close> is a rejected \<open>response.json()\<close>; \<open>FileReadFailure\<close> is the
  rejection of \<open>readFileContent\<close> with the file's name and the reader's error code;
  \<open>TypeError\<close> is thrown by \<open>String\<close> for a value it cannot convert;
  \<open>LoopDriverError\<close> is an exception outside the per-file \<open>try\<close>.

  A log entry is one constructor for each \<open>logMessage\<close> call of the source, holding the
  values the message interpolates. The time stamp of an entry is left out.
\<close>

datatype log_entry =
    LogCleared
  | StartingImport
  | ValidationFailed
  | UrlSuffixWarning
  | ProcessingBatch nat
  | ProcessingFile nat nat string
  | SkippingFile string
  | ReadContent string nat
  | AttemptingCreate string
  | ApiRequest string string
  | ApiResponseError string string nat
  | ApiResponseNoContent string string nat
  | ApiResponseOK string string nat
  | FetchError string string js_error
  | NoIdInResponse string "json option"
  | CreatedBookmark string string
  | CreateFailed string js_error
  | ImportFailed string
  | FileError string js_error
  | FatalError js_error
  | ImportHalted
  | SummaryHeader
  | SummaryTotal nat
  | SummaryProcessed nat
  | SummarySucceeded nat
  | EndOfRun

fun isError :: "log_entry \<Rightarrow> bool" where
  \<comment> \<open>The second argument of the \<open>logMessage\<close> call that writes the entry.\<close>
  "isError ValidationFailed = True"
| "isError UrlSuffixWarning = True"
| "isError (SkippingFile n) = True"
| "isError (ApiResponseError m u s) = True"
| "isError (FetchError m u e) = True"
| "isError (NoIdInResponse t d) = True"
| "isError (CreateFailed t e) = True"
| "isError (ImportFailed n) = True"
| "isError (FileError n e) = True"
| "isError (FatalError e) = True"
| "isError ImportHalted = True"
| "isError other = False"

record payload =
  p_title :: string
  p_text :: string
  p_type :: string
  p_archived :: bool
  p_favourited :: bool
  p_note :: string
  p_summary :: string

record request =
  req_url :: string
  req_method :: string
  req_headers :: "(string \<times> string) list"
  req_body :: "payload option"

record response =
  status :: nat
  statusText :: string
  content_length :: "string option"
  body_text :: "string option"
  body_json :: "string + json"

text \<open>
  \<open>req_body\<close> is the object that \<open>JSON.stringify\<close> serialises into the body.
  \<open>content_length\<close> is \<open>response.headers.get('content-length')\<close>; \<open>body_text\<close> is
  what \<open>response.text()\<close> resolves to, \<open>None\<close> when it rejects; \<open>body_json\<close> is
  what \<open>response.json()\<close> resolves to, \<open>Inl\<close> the message when it rejects.
\<close>

definition ok :: "response \<Rightarrow> bool" where
  "ok r = (200 \<le> status r \<and> status r \<le> 299)"

datatype fetch_outcome = Rejected string | Resolved response

datatype read_outcome = ReadOk string | ReadFailed nat

record input_file =
  file_name :: string
  file_read :: read_outcome

text \<open>
  \<open>file_read\<close> is what the \<open>FileReader\<close> reports for the file: its text, or an error
  code.

  The surroundings of a run: \<open>env_fetch k req\<close> is how the platform's \<open>fetch\<close> settles
  the request \<open>req\<close> when \<open>k\<close> requests were issued before it. \<open>env_sleep i\<close> is
  how the awaited delay at the end of iteration \<open>i\<close> settles: the only statement of
  the loop driver outside the per-file \<open>try\<close> that the model lets fail, so that the
  outer \<open>catch\<close> and \<open>finally\<close> have something to handle.

  The page holds the log area and the start button; \<open>fetched\<close> records every request
  handed to \<open>fetch\<close> and \<open>filesRead\<close> the name of every file handed to the
  \<open>FileReader\<close>, in order.
\<close>

record env =
  env_fetch :: "nat \<Rightarrow> request \<Rightarrow> fetch_outcome"
  env_sleep :: "nat \<Rightarrow> js_error option"

record page =
  logOutput :: "log_entry list"
  fetched :: "request list"
  filesRead :: "string list"
  startButton_disabled :: bool

record counters =
  filesProcessedCount :: nat
  filesSyncedSuccessfully :: nat

definition logMessage :: "log_entry \<Rightarrow> page \<Rightarrow> page" where
  "logMessage entry pg = pg\<lparr>logOutput := logOutput pg @ [entry]\<rparr>"

definition clearLog :: "page \<Rightarrow> page" where
  "clearLog pg = logMessage LogCleared (pg\<lparr>logOutput := []\<rparr>)"

definition readFileContent :: "input_file \<Rightarrow> page \<Rightarrow> (js_error + string) \<times> page" where
  "readFileContent f pg =
     (let pg1 = pg\<lparr>filesRead := filesRead pg @ [file_name f]\<rparr>
      in case file_read f of
           ReadOk content \<Rightarrow> (Inr content, pg1)
         | ReadFailed code \<Rightarrow> (Inl (FileReadFailure (file_name f) code), pg1))"

section \<open>The API client\<close>

definition requestOptions :: "string \<Rightarrow> string \<Rightarrow> string \<Rightarrow> payload option \<Rightarrow> request" where
  \<comment> \<open>The \<open>options\<close> object of \<open>fetchKarakeep\<close>, with the URL it is sent to.\<close>
  "requestOptions url method apiKey body =
     \<lparr>req_url = url, req_method = method,
      req_headers = [(''Authorization'', ''Bearer '' @ apiKey),
                     (''Content-Type'', ''application/json''),
                     (''Accept'', ''application/json'')],
      req_body = body\<rparr>"

definition fetchKarakeep ::
  "env \<Rightarrow> string \<Rightarrow> string \<Rightarrow> string \<Rightarrow> payload option \<Rightarrow> page
     \<Rightarrow> (js_error + json option) \<times> page" where
  \<comment> \<open>\<open>Inl\<close> is the error the function throws again after logging it; \<open>Inr None\<close>
      is the \<open>null\<close> of an empty response.\<close>
  "fetchKarakeep e url method apiKey body pg =
     (let options = requestOptions url method apiKey body;
          pg1 = logMessage (ApiRequest method url) pg;
          outcome = env_fetch e (length (fetched pg1)) options;
          pg2 = pg1\<lparr>fetched := fetched pg1 @ [options]\<rparr>
      in case outcome of
           Rejected msg \<Rightarrow>
             (Inl (NetworkError msg),
              logMessage (FetchError method url (NetworkError msg)) pg2)
         | Resolved r \<Rightarrow>
             if \<not> ok r then
               (let err = ApiError (status r) (statusText r)
                            (map_option (\<lambda>b. substring b 0 200) (body_text r));
                    pg3 = logMessage (ApiResponseError method url (status r)) pg2
                in (Inl err, logMessage (FetchError method url err) pg3))
             else if status r = 204 \<or> content_length r = Some ''0'' then
               (Inr None, logMessage (ApiResponseNoContent method url (status r)) pg2)
             else
               (case body_json r of
                  Inl msg \<Rightarrow>
                    (Inl (JsonParseError msg),
                     logMessage (FetchError method url (JsonParseError msg)) pg2)
                | Inr data \<Rightarrow>
                    (Inr (Some data), logMessage (ApiResponseOK method url (status r)) pg2)))"

definition bookmarkPayload :: "string \<Rightarrow> string \<Rightarrow> payload" where
  \<comment> \<open>The object literal \<open>payload\<close> of \<open>createRootItemInKarakeep\<close>.\<close>
  "bookmarkPayload title textContent =
     \<lparr>p_title = truncateTitle title,
      p_text = textContent,
      p_type = ''text'',
      p_archived = False,
      p_favourited = False,
      p_note = ''Imported from Markdown file: '' @ title @ ''.md'',
      p_summary = []\<rparr>"

definition newBookmarkIdOf :: "json option \<Rightarrow> js_error + string option" where
  \<comment> \<open>\<open>createdBookmarkData?.id ? String(createdBookmarkData.id) : null\<close>;
      \<open>Inl\<close> when \<open>String\<close> throws, \<open>Inr None\<close> for \<open>null\<close>.\<close>
  "newBookmarkIdOf createdBookmarkData =
     (case get_id createdBookmarkData of
        None \<Rightarrow> Inr None
      | Some v \<Rightarrow>
          if truthy v then
            (case js_String v of Inl err \<Rightarrow> Inl err | Inr s \<Rightarrow> Inr (Some s))
          else Inr None)"

definition createRootItemInKarakeep ::
  "env \<Rightarrow> string \<Rightarrow> string \<Rightarrow> string \<Rightarrow> string \<Rightarrow> page \<Rightarrow> (js_error + bool) \<times> page" where
  \<comment> \<open>\<open>Inl\<close> would be an exception leaving the function. Both the call of
      \<open>fetchKarakeep\<close> and the conversion of the \<open>id\<close> stand inside the
      \<open>try\<close>, so what either throws reaches the \<open>catch\<close>. The test
      \<open>!newBookmarkId\<close> holds for \<open>null\<close> and for the empty string.\<close>
  "createRootItemInKarakeep e apiUrl apiKey title textContent pg =
     (let payload = bookmarkPayload title textContent;
          pg1 = logMessage (AttemptingCreate title) pg;
          createUrl = apiUrl @ ''/bookmarks''
      in case fetchKarakeep e createUrl ''POST'' apiKey (Some payload) pg1 of
           (Inl err, pg2) \<Rightarrow> (Inr False, logMessage (CreateFailed title err) pg2)
         | (Inr createdBookmarkData, pg2) \<Rightarrow>
             (case newBookmarkIdOf createdBookmarkData of
                Inl err \<Rightarrow> (Inr False, logMessage (CreateFailed title err) pg2)
              | Inr None \<Rightarrow>
                  (Inr False, logMessage (NoIdInResponse title createdBookmarkData) pg2)
              | Inr (Some newBookmarkId) \<Rightarrow>
                  if newBookmarkId = [] then
                    (Inr False, logMessage (NoIdInResponse title createdBookmarkData) pg2)
                  else
                    (Inr True, logMessage (CreatedBookmark newBookmarkId title) pg2)))"

section \<open>The import run\<close>

definition isMarkdownName :: "string \<Rightarrow> bool" where
  \<comment> \<open>\<open>originalFileName.toLowerCase().endsWith('.md')\<close>\<close>
  "isMarkdownName originalFileName = endsWith (toLowerCase originalFileName) ''.md''"

definition importFile ::
  "env \<Rightarrow> string \<Rightarrow> string \<Rightarrow> input_file \<Rightarrow> counters \<times> page \<Rightarrow> counters \<times> page" where
  \<comment> \<open>The inner \<open>try\<close> and its \<open>catch\<close>.\<close>
  "importFile e apiUrl apiKey f st =
     (case st of (c, pg) \<Rightarrow>
        (let originalFileName = file_name f
         in (case readFileContent f pg of
               (Inl err, pg1) \<Rightarrow> (c, logMessage (FileError originalFileName err) pg1)
             | (Inr markdownContent, pg1) \<Rightarrow>
                 (let pg2 = logMessage
                              (ReadContent originalFileName (length markdownContent)) pg1;
                      itemTitle = getFileNameWithoutExtension originalFileName
                  in (case createRootItemInKarakeep e apiUrl apiKey itemTitle
                             markdownContent pg2 of
                        (Inl err, pg3) \<Rightarrow>
                          (c, logMessage (FileError originalFileName err) pg3)
                      | (Inr syncSuccess, pg3) \<Rightarrow>
                          (if syncSuccess then
                             (c\<lparr>filesSyncedSuccessfully := filesSyncedSuccessfully c + 1\<rparr>,
                              pg3)
                           else (c, logMessage (ImportFailed originalFileName) pg3)))))))"

definition loopBody ::
  "env \<Rightarrow> string \<Rightarrow> string \<Rightarrow> nat \<Rightarrow> input_file \<Rightarrow> counters \<times> page
     \<Rightarrow> js_error option \<times> counters \<times> page" where
  \<comment> \<open>One iteration of \<open>for (const file of files)\<close>. \<open>Some err\<close> is an exception that
      leaves the loop. A skipped file reaches \<open>continue\<close> and is not followed by the
      delay.\<close>
  "loopBody e apiUrl apiKey totalFiles f st =
     (case st of (c, pg) \<Rightarrow>
        let c1 = c\<lparr>filesProcessedCount := filesProcessedCount c + 1\<rparr>;
            originalFileName = file_name f;
            pg1 = logMessage
                    (ProcessingFile (filesProcessedCount c1) totalFiles originalFileName) pg
        in if \<not> isMarkdownName originalFileName then
             (None, c1, logMessage (SkippingFile originalFileName) pg1)
           else
             (case importFile e apiUrl apiKey f (c1, pg1) of
                (c2, pg2) \<Rightarrow> (env_sleep e (filesProcessedCount c2), c2, pg2)))"

fun processFiles ::
  "env \<Rightarrow> string \<Rightarrow> string \<Rightarrow> nat \<Rightarrow> input_file list \<Rightarrow> counters \<times> page
     \<Rightarrow> js_error option \<times> counters \<times> page" where
  "processFiles e apiUrl apiKey totalFiles [] st = (None, st)"
| "processFiles e apiUrl apiKey totalFiles (f # files) st =
     (case loopBody e apiUrl apiKey totalFiles f st of
        (Some err, st') \<Rightarrow> (Some err, st')
      | (None, st') \<Rightarrow> processFiles e apiUrl apiKey totalFiles files st')"

definition summary :: "nat \<Rightarrow> counters \<Rightarrow> log_entry list" where
  \<comment> \<open>The five entries of the \<open>finally\<close> block.\<close>
  "summary totalFiles c =
     [SummaryHeader, SummaryTotal totalFiles, SummaryProcessed (filesProcessedCount c),
      SummarySucceeded (filesSyncedSuccessfully c), EndOfRun]"

definition startImportProcess ::
  "env \<Rightarrow> string \<Rightarrow> string \<Rightarrow> input_file list \<Rightarrow> page \<Rightarrow> counters option \<times> page" where
  \<comment> \<open>The two strings are the values of the URL and key inputs. The first component is
      \<open>None\<close> when the function returns before it declares its counters.\<close>
  "startImportProcess e karakeepUrl karakeepApiKey files pg =
     (let pg1 = logMessage StartingImport ((clearLog pg)\<lparr>startButton_disabled := True\<rparr>);
          apiUrl = removeTrailingSlash (trim karakeepUrl);
          apiKey = trim karakeepApiKey
      in if apiUrl = [] \<or> apiKey = [] \<or> files = [] then
           (None, (logMessage ValidationFailed pg1)\<lparr>startButton_disabled := False\<rparr>)
         else
           (let pg2 = (if \<not> endsWith apiUrl ''/api/v1''
                       then logMessage UrlSuffixWarning pg1 else pg1);
                c0 = \<lparr>filesProcessedCount = 0, filesSyncedSuccessfully = 0\<rparr>;
                totalFiles = length files;
                pg3 = logMessage (ProcessingBatch totalFiles) pg2
            in case processFiles e apiUrl apiKey totalFiles files (c0, pg3) of
                 (thrown, c, pg4) \<Rightarrow>
                   let pg5 = (case thrown of
                                None \<Rightarrow> pg4
                              | Some err \<Rightarrow>
                                  logMessage ImportHalted (logMessage (FatalError err) pg4));
                       pg6 = pg5\<lparr>logOutput := logOutput pg5 @ summary totalFiles c\<rparr>
                   in (Some c, pg6\<lparr>startButton_disabled := False\<rparr>)))"

section \<open>Notions used to state the properties\<close>

definition usableId :: "json \<Rightarrow> bool" where
  \<comment> \<open>The \<open>id\<close> values for which \<open>newBookmarkId\<close> is a non-empty string:
      truthy, converted without an exception, and not to the empty string.\<close>
  "usableId v =
     (truthy v \<and> (case js_String v of Inl err \<Rightarrow> False | Inr s \<Rightarrow> s \<noteq> []))"

definition confirmsCreation :: "fetch_outcome \<Rightarrow> bool" where
  \<comment> \<open>The outcomes of \<open>fetch\<close> that carry a usable \<open>id\<close> past every check of
      \<open>fetchKarakeep\<close>.\<close>
  "confirmsCreation outcome =
     (case outcome of
        Rejected msg \<Rightarrow> False
      | Resolved r \<Rightarrow>
          ok r \<and> status r \<noteq> 204 \<and> content_length r \<noteq> Some ''0'' \<and>
          (case body_json r of
             Inl msg \<Rightarrow> False
           | Inr data \<Rightarrow> (case get_id (Some data) of None \<Rightarrow> False | Some v \<Rightarrow> usableId v)))"

definition created_per_spec :: "fetch_outcome \<Rightarrow> bool" where
  \<comment> \<open>Success as the specification words it: a 2xx status, not the 204 or zero-length
      case, and a JSON body with an \<open>id\<close> field that is a string or a number.\<close>
  "created_per_spec outcome =
     (case outcome of
        Rejected msg \<Rightarrow> False
      | Resolved r \<Rightarrow>
          ok r \<and> status r \<noteq> 204 \<and> content_length r \<noteq> Some ''0'' \<and>
          (case body_json r of
             Inr (JObject kvs) \<Rightarrow>
               (case map_of kvs ''id'' of
                  Some (JString s) \<Rightarrow> True
                | Some (JNumber n) \<Rightarrow> True
                | _ \<Rightarrow> False)
           | _ \<Rightarrow> False))"

definition createRequest :: "string \<Rightarrow> string \<Rightarrow> string \<Rightarrow> string \<Rightarrow> request" where
  \<comment> \<open>The request \<open>createRootItemInKarakeep\<close> hands to \<open>fetch\<close>.\<close>
  "createRequest apiUrl apiKey title textContent =
     requestOptions (apiUrl @ ''/bookmarks'') ''POST'' apiKey
       (Some (bookmarkPayload title textContent))"

fun isCaughtError :: "log_entry \<Rightarrow> bool" where
  \<comment> \<open>The entries written by the \<open>catch\<close> blocks of \<open>startImportProcess\<close>.\<close>
  "isCaughtError (FileError n e) = True"
| "isCaughtError (FatalError e) = True"
| "isCaughtError ImportHalted = True"
| "isCaughtError other = False"

definition markdownFiles :: "input_file list \<Rightarrow> input_file list" where
  "markdownFiles files = filter (\<lambda>f. isMarkdownName (file_name f)) files"

definition noCounts :: counters where
  "noCounts = \<lparr>filesProcessedCount = 0, filesSyncedSuccessfully = 0\<rparr>"

definition loopStartPage :: "string \<Rightarrow> nat \<Rightarrow> page \<Rightarrow> page" where
  \<comment> \<open>The page when a run enters its loop.\<close>
  "loopStartPage apiUrl totalFiles pg =
     \<lparr>logOutput = [LogCleared, StartingImport] @
                   (if endsWith apiUrl ''/api/v1'' then [] else [UrlSuffixWarning]) @
                   [ProcessingBatch totalFiles],
      fetched = fetched pg, filesRead = filesRead pg, startButton_disabled = True\<rparr>"

text \<open>Concrete surroundings for the examples.\<close>

definition constantEnv :: "fetch_outcome \<Rightarrow> env" where
  \<comment> \<open>Every request settles the same way and no delay fails.\<close>
  "constantEnv outcome = \<lparr>env_fetch = (\<lambda>k req. outcome), env_sleep = (\<lambda>i. None)\<rparr>"

definition failingDelayEnv :: "fetch_outcome \<Rightarrow> nat \<Rightarrow> js_error \<Rightarrow> env" where
  \<comment> \<open>As \<open>constantEnv\<close>, but the delay of iteration \<open>i\<close> throws \<open>err\<close>.\<close>
  "failingDelayEnv outcome i err =
     \<lparr>env_fetch = (\<lambda>k req. outcome),
      env_sleep = (\<lambda>j. if j = i then Some err else None)\<rparr>"

definition emptyPage :: page where
  "emptyPage = \<lparr>logOutput = [], fetched = [], filesRead = [], startButton_disabled = False\<rparr>"

definition jsonResponse :: "nat \<Rightarrow> json \<Rightarrow> response" where
  \<comment> \<open>A response with the given status whose body parses to the given value.\<close>
  "jsonResponse code data =
     \<lparr>status = code, statusText = [], content_length = None, body_text = None,
      body_json = Inr data\<rparr>"

section \<open>Title truncation\<close>

lemma substring_prefix: "substring s 0 n = take n s"
  by (simp add: substring_def Let_def min_def)

lemma truncateTitleTo_long:
  assumes "3 \<le> limit" and "limit < length title"
  shows "length (truncateTitleTo limit title) = limit"
    and "drop (limit - 3) (truncateTitleTo limit title) = ''...''"
    and "take (limit - 3) (truncateTitleTo limit title) = take (limit - 3) title"
  using assms by (simp_all add: truncateTitleTo_def substring_prefix)

lemma truncateTitleTo_hard:
  assumes "limit < 3" and "limit < length title"
  shows "truncateTitleTo limit title = take limit title"
  using assms by (simp add: truncateTitleTo_def substring_prefix)

text \<open>
  C3. A title of more than 255 characters is cut to exactly 255 characters, the first 252
  of the title followed by the three-character marker \<open>...\<close>; a title of at most 255
  characters is returned as it is; so the result never has more than 255 characters. For
  any limit the body is the same: with a limit of at least 3 the result has the limit's
  length and ends in the marker, and below 3 it is the first \<open>limit\<close> characters with
  no marker.
\<close>

theorem truncateTitle_bounded:
  "(255 < length title \<longrightarrow>
      length (truncateTitle title) = 255 \<and>
      drop 252 (truncateTitle title) = ''...'' \<and>
      take 252 (truncateTitle title) = take 252 title) \<and>
   (length title \<le> 255 \<longrightarrow> truncateTitle title = title) \<and>
   length (truncateTitle title) \<le> 255 \<and>
   (3 \<le> limit \<and> limit < length title \<longrightarrow>
      length (truncateTitleTo limit title) = limit \<and>
      drop (limit - 3) (truncateTitleTo limit title) = ''...'') \<and>
   (limit < 3 \<and> limit < length title \<longrightarrow>
      truncateTitleTo limit title = take limit title \<and>
      length (truncateTitleTo limit title) = limit)"
proof -
  have long: "255 < length title \<Longrightarrow>
      length (truncateTitle title) = 255 \<and>
      drop 252 (truncateTitle title) = ''...'' \<and>
      take 252 (truncateTitle title) = take 252 title"
    using truncateTitleTo_long [of 255 title]
    by (simp add: truncateTitle_def MAX_KARAKEEP_TITLE_LENGTH_def)
  have short: "length title \<le> 255 \<Longrightarrow> truncateTitle title = title"
    by (simp add: truncateTitle_def truncateTitleTo_def MAX_KARAKEEP_TITLE_LENGTH_def)
  have bound: "length (truncateTitle title) \<le> 255"
  proof (cases "255 < length title")
    case True
    with long show ?thesis by simp
  next
    case False
    with short show ?thesis by simp
  qed
  have hard: "limit < 3 \<and> limit < length title \<Longrightarrow>
      truncateTitleTo limit title = take limit title \<and>
      length (truncateTitleTo limit title) = limit"
    using truncateTitleTo_hard [of limit title] by simp
  from long short bound hard truncateTitleTo_long(1,2) [of limit title]
  show ?thesis by blast
qed

theorem truncateTitle_bounded_witness:
  "length (truncateTitle (replicate 300 (CHR ''x''))) = 255 \<and>
   drop 252 (truncateTitle (replicate 300 (CHR ''x''))) = ''...'' \<and>
   truncateTitle ''notes'' = ''notes'' \<and>
   truncateTitleTo 4 ''notes'' = ''n...'' \<and>
   truncateTitleTo 2 ''notes'' = ''no''"
proof -
  have "drop 252 (truncateTitle (replicate 300 (CHR ''x''))) = ''...'' \<and>
        length (truncateTitle (replicate 300 (CHR ''x''))) = 255"
    using truncateTitle_bounded [of "replicate 300 (CHR ''x'')" 255] by simp
  moreover have "truncateTitle ''notes'' = ''notes''"
    using truncateTitle_bounded [of "''notes''" 255] by simp
  moreover have "truncateTitleTo 4 ''notes'' = ''n...''"
    by (simp add: truncateTitleTo_def substring_prefix)
  moreover have "truncateTitleTo 2 ''notes'' = ''no''"
    using truncateTitle_bounded [of "''notes''" 2] by simp
  ultimately show ?thesis by simp
qed

section \<open>Lemmas about the file name\<close>

lemma extensionAt_no_dot: "extensionAt (c # cs) \<Longrightarrow> CHR ''.'' \<notin> set cs"
  by (auto simp: extensionAt_def list_all_iff)

lemma getFileName_no_dot:
  "CHR ''.'' \<notin> set name \<Longrightarrow> getFileNameWithoutExtension name = name"
  by (induction name) (auto simp: extensionAt_def)

lemma getFileName_skip:
  "getFileNameWithoutExtension (stem @ CHR ''.'' # ext) =
     stem @ getFileNameWithoutExtension (CHR ''.'' # ext)"
proof (induction stem)
  case Nil
  show ?case by simp
next
  case (Cons s stem)
  have "\<not> extensionAt (s # stem @ CHR ''.'' # ext)"
    using extensionAt_no_dot [of s "stem @ CHR ''.'' # ext"] by auto
  with Cons show ?case by simp
qed

lemma getFileName_match:
  assumes "ext \<noteq> []" "CHR ''.'' \<notin> set ext" "CHR ''/'' \<notin> set ext"
  shows "getFileNameWithoutExtension (stem @ CHR ''.'' # ext) = stem"
proof -
  have "extensionAt (CHR ''.'' # ext)"
    using assms by (auto simp: extensionAt_def list_all_iff)
  then show ?thesis by (simp add: getFileName_skip)
qed

lemma getFileName_nomatch:
  assumes "CHR ''.'' \<notin> set ext" "ext = [] \<or> CHR ''/'' \<in> set ext"
  shows "getFileNameWithoutExtension (stem @ CHR ''.'' # ext) = stem @ CHR ''.'' # ext"
proof -
  have "\<not> extensionAt (CHR ''.'' # ext)"
    using assms by (auto simp: extensionAt_def list_all_iff)
  then show ?thesis using assms(1) by (simp add: getFileName_skip getFileName_no_dot)
qed

lemma title_per_spec_split:
  assumes "CHR ''.'' \<notin> set ext"
  shows "title_per_spec (stem @ CHR ''.'' # ext) = stem"
proof -
  have "dropWhile (\<lambda>c. c \<noteq> CHR ''.'') (rev ext @ CHR ''.'' # rev stem) = CHR ''.'' # rev stem"
    using assms by (auto simp: dropWhile_append3)
  then show ?thesis by (simp add: title_per_spec_def)
qed

lemma toLowerCase_unit_dot: "toLowerCase_unit c = CHR ''.'' \<Longrightarrow> c = CHR ''.''"
proof (cases "toLowerCase_unit c = c")
  case True
  assume "toLowerCase_unit c = CHR ''.''"
  with True show ?thesis by simp
next
  case False
  assume dot: "toLowerCase_unit c = CHR ''.''"
  let ?n = "of_char c :: nat"
  from False have range: "(65 \<le> ?n \<and> ?n \<le> 90) \<or> (192 \<le> ?n \<and> ?n \<le> 222 \<and> ?n \<noteq> 215)"
    by (auto simp: toLowerCase_unit_def Let_def split: if_splits)
  with dot have "char_of (?n + 32) = CHR ''.''"
    by (simp add: toLowerCase_unit_def Let_def)
  then have "(of_char (char_of (?n + 32)) :: nat) = of_char (CHR ''.'')"
    by simp
  then have "(?n + 32) mod 256 = 46"
    by simp
  with range show ?thesis by auto
qed

lemma toLowerCase_unit_fixed:
  "toLowerCase_unit (CHR ''.'') = CHR ''.''" "toLowerCase_unit (CHR ''/'') = CHR ''/''"
  by (simp_all add: toLowerCase_unit_def)

lemma isMarkdownName_split:
  assumes "isMarkdownName name"
  obtains stem b c where "name = stem @ [CHR ''.'', b, c]"
    and "b \<noteq> CHR ''.''" "b \<noteq> CHR ''/''" "c \<noteq> CHR ''.''" "c \<noteq> CHR ''/''"
proof -
  from assms have len: "3 \<le> length name"
    and suffix: "drop (length name - 3) (toLowerCase name) = ''.md''"
    by (simp_all add: isMarkdownName_def endsWith_def toLowerCase_def numeral_3_eq_3)
  define stem where "stem = take (length name - 3) name"
  define ext where "ext = drop (length name - 3) name"
  have name: "name = stem @ ext" and "length ext = 3"
    using len by (simp_all add: stem_def ext_def)
  then obtain a b c where ext: "ext = [a, b, c]"
    by (auto simp: length_Suc_conv numeral_3_eq_3)
  from suffix have "map toLowerCase_unit ext = ''.md''"
    by (simp add: toLowerCase_def ext_def drop_map)
  with ext have low: "toLowerCase_unit a = CHR ''.''" "toLowerCase_unit b = CHR ''m''"
      "toLowerCase_unit c = CHR ''d''"
    by simp_all
  from low(1) have "a = CHR ''.''" by (rule toLowerCase_unit_dot)
  moreover from low(2) have "b \<noteq> CHR ''.''" "b \<noteq> CHR ''/''"
    using toLowerCase_unit_fixed by auto
  moreover from low(3) have "c \<noteq> CHR ''.''" "c \<noteq> CHR ''/''"
    using toLowerCase_unit_fixed by auto
  ultimately show ?thesis using that name ext by simp
qed

lemma getFileName_markdown:
  assumes "isMarkdownName name"
  shows "getFileNameWithoutExtension name = take (length name - 3) name"
proof -
  from assms obtain stem b c where name: "name = stem @ [CHR ''.'', b, c]"
    and "b \<noteq> CHR ''.''" "b \<noteq> CHR ''/''" "c \<noteq> CHR ''.''" "c \<noteq> CHR ''/''"
    by (rule isMarkdownName_split)
  then have "getFileNameWithoutExtension (stem @ CHR ''.'' # [b, c]) = stem"
    by (intro getFileName_match) auto
  with name show ?thesis by simp
qed

lemma digitsOf_nonempty: "digitsOf n \<noteq> []"
  by (subst digitsOf.simps) simp

lemma usableId_simps:
  "usableId (JString s) = (s \<noteq> [])" "usableId (JNumber n) = (n \<noteq> 0)"
  "usableId JNull = False" "usableId (JBool b) = b"
  "usableId (JObject kvs) = (map_of kvs ''toString'' = None)"
  by (auto simp: usableId_def numberToString_def digitsOf_nonempty)

section \<open>Lemmas about the API client\<close>

lemma fetchKarakeep_fetched:
  "fetched (snd (fetchKarakeep e url method apiKey body pg)) =
     fetched pg @ [requestOptions url method apiKey body]"
  by (simp add: fetchKarakeep_def logMessage_def Let_def
      split: fetch_outcome.split sum.split)

lemma fetchKarakeep_filesRead:
  "filesRead (snd (fetchKarakeep e url method apiKey body pg)) = filesRead pg"
  by (simp add: fetchKarakeep_def logMessage_def Let_def
      split: fetch_outcome.split sum.split)

lemma createRoot_fetched:
  "fetched (snd (createRootItemInKarakeep e apiUrl apiKey title textContent pg)) =
     fetched pg @ [createRequest apiUrl apiKey title textContent]"
proof -
  let ?call = "fetchKarakeep e (apiUrl @ ''/bookmarks'') ''POST'' apiKey
      (Some (bookmarkPayload title textContent)) (logMessage (AttemptingCreate title) pg)"
  obtain r pg2 where call: "?call = (r, pg2)"
    by (cases ?call)
  have "fetched (snd ?call) = fetched pg @ [createRequest apiUrl apiKey title textContent]"
    by (simp add: fetchKarakeep_fetched createRequest_def logMessage_def)
  with call have "fetched pg2 = fetched pg @ [createRequest apiUrl apiKey title textContent]"
    by simp
  with call show ?thesis
    by (simp add: createRootItemInKarakeep_def logMessage_def Let_def
        split: sum.split option.split)
qed

lemma createRoot_filesRead:
  "filesRead (snd (createRootItemInKarakeep e apiUrl apiKey title textContent pg)) =
     filesRead pg"
proof -
  let ?call = "fetchKarakeep e (apiUrl @ ''/bookmarks'') ''POST'' apiKey
      (Some (bookmarkPayload title textContent)) (logMessage (AttemptingCreate title) pg)"
  obtain r pg2 where call: "?call = (r, pg2)"
    by (cases ?call)
  have "filesRead (snd ?call) = filesRead pg"
    by (simp add: fetchKarakeep_filesRead logMessage_def)
  with call have "filesRead pg2 = filesRead pg"
    by simp
  with call show ?thesis
    by (simp add: createRootItemInKarakeep_def logMessage_def Let_def
        split: sum.split option.split)
qed

lemma createRoot_result:
  "fst (createRootItemInKarakeep e apiUrl apiKey title textContent pg) =
     Inr (confirmsCreation (env_fetch e (length (fetched pg))
            (createRequest apiUrl apiKey title textContent)))"
  by (simp add: createRootItemInKarakeep_def fetchKarakeep_def createRequest_def
      confirmsCreation_def newBookmarkIdOf_def usableId_def logMessage_def Let_def
      split: fetch_outcome.split sum.split option.split)

lemma fetchKarakeep_caughtErrors:
  "filter isCaughtError (logOutput (snd (fetchKarakeep e url method apiKey body pg))) =
     filter isCaughtError (logOutput pg)"
  by (simp add: fetchKarakeep_def logMessage_def Let_def
      split: fetch_outcome.split sum.split)

lemma createRoot_caughtErrors:
  "filter isCaughtError
     (logOutput (snd (createRootItemInKarakeep e apiUrl apiKey title textContent pg))) =
   filter isCaughtError (logOutput pg)"
proof -
  let ?call = "fetchKarakeep e (apiUrl @ ''/bookmarks'') ''POST'' apiKey
      (Some (bookmarkPayload title textContent)) (logMessage (AttemptingCreate title) pg)"
  obtain r pg2 where call: "?call = (r, pg2)"
    by (cases ?call)
  have "filter isCaughtError (logOutput (snd ?call)) = filter isCaughtError (logOutput pg)"
    by (simp add: fetchKarakeep_caughtErrors logMessage_def)
  with call have "filter isCaughtError (logOutput pg2) = filter isCaughtError (logOutput pg)"
    by simp
  with call show ?thesis
    by (simp add: createRootItemInKarakeep_def logMessage_def Let_def
        split: sum.split option.split)
qed

lemma importFile_read_failed:
  assumes "file_read f = ReadFailed code"
  shows "importFile e apiUrl apiKey f (c, pg) =
     (c, pg\<lparr>logOutput := logOutput pg @
                 [FileError (file_name f) (FileReadFailure (file_name f) code)],
            filesRead := filesRead pg @ [file_name f]\<rparr>)"
  using assms by (simp add: importFile_def readFileContent_def logMessage_def Let_def)

lemma importFile_read_ok:
  assumes "file_read f = ReadOk content"
  defines "title \<equiv> getFileNameWithoutExtension (file_name f)"
  shows "fst (importFile e apiUrl apiKey f (c, pg)) =
           (if confirmsCreation (env_fetch e (length (fetched pg))
                 (createRequest apiUrl apiKey title content))
            then c\<lparr>filesSyncedSuccessfully := filesSyncedSuccessfully c + 1\<rparr> else c)"
    and "fetched (snd (importFile e apiUrl apiKey f (c, pg))) =
           fetched pg @ [createRequest apiUrl apiKey title content]"
    and "filesRead (snd (importFile e apiUrl apiKey f (c, pg))) =
           filesRead pg @ [file_name f]"
    and "filter isCaughtError (logOutput (snd (importFile e apiUrl apiKey f (c, pg)))) =
           filter isCaughtError (logOutput pg)"
proof -
  let ?pg2 = "logMessage (ReadContent (file_name f) (length content))
                (pg\<lparr>filesRead := filesRead pg @ [file_name f]\<rparr>)"
  let ?call = "createRootItemInKarakeep e apiUrl apiKey title content ?pg2"
  obtain r pg3 where call: "?call = (r, pg3)"
    by (cases ?call)
  have r: "r = Inr (confirmsCreation (env_fetch e (length (fetched pg))
                 (createRequest apiUrl apiKey title content)))"
    using createRoot_result [of e apiUrl apiKey title content ?pg2] call
    by (simp add: logMessage_def)
  have f3: "fetched pg3 = fetched pg @ [createRequest apiUrl apiKey title content]"
    using createRoot_fetched [of e apiUrl apiKey title content ?pg2] call
    by (simp add: logMessage_def)
  have r3: "filesRead pg3 = filesRead pg @ [file_name f]"
    using createRoot_filesRead [of e apiUrl apiKey title content ?pg2] call
    by (simp add: logMessage_def)
  have l3: "filter isCaughtError (logOutput pg3) = filter isCaughtError (logOutput pg)"
    using createRoot_caughtErrors [of e apiUrl apiKey title content ?pg2] call
    by (simp add: logMessage_def)
  have unfold: "importFile e apiUrl apiKey f (c, pg) =
      (if confirmsCreation (env_fetch e (length (fetched pg))
                 (createRequest apiUrl apiKey title content))
       then (c\<lparr>filesSyncedSuccessfully := filesSyncedSuccessfully c + 1\<rparr>, pg3)
       else (c, logMessage (ImportFailed (file_name f)) pg3))"
    using assms(1) call r
    by (simp add: importFile_def readFileContent_def Let_def title_def)
  show "fst (importFile e apiUrl apiKey f (c, pg)) =
           (if confirmsCreation (env_fetch e (length (fetched pg))
                 (createRequest apiUrl apiKey title content))
            then c\<lparr>filesSyncedSuccessfully := filesSyncedSuccessfully c + 1\<rparr> else c)"
    by (simp add: unfold)
  show "fetched (snd (importFile e apiUrl apiKey f (c, pg))) =
           fetched pg @ [createRequest apiUrl apiKey title content]"
    by (simp add: unfold f3 logMessage_def)
  show "filesRead (snd (importFile e apiUrl apiKey f (c, pg))) =
           filesRead pg @ [file_name f]"
    by (simp add: unfold r3 logMessage_def)
  show "filter isCaughtError (logOutput (snd (importFile e apiUrl apiKey f (c, pg)))) =
           filter isCaughtError (logOutput pg)"
    by (simp add: unfold l3 logMessage_def)
qed

lemma importFile_processed:
  "filesProcessedCount (fst (importFile e apiUrl apiKey f (c, pg))) = filesProcessedCount c"
proof (cases "file_read f")
  case (ReadOk content)
  then show ?thesis by (simp add: importFile_read_ok(1))
next
  case (ReadFailed code)
  then show ?thesis by (simp add: importFile_read_failed)
qed

lemma loopBody_skip:
  assumes "\<not> isMarkdownName (file_name f)"
  shows "loopBody e apiUrl apiKey totalFiles f (c, pg) =
     (None, c\<lparr>filesProcessedCount := filesProcessedCount c + 1\<rparr>,
      pg\<lparr>logOutput := logOutput pg @
             [ProcessingFile (filesProcessedCount c + 1) totalFiles (file_name f),
              SkippingFile (file_name f)]\<rparr>)"
  using assms by (simp add: loopBody_def logMessage_def Let_def)

lemma loopBody_markdown:
  assumes "isMarkdownName (file_name f)"
  shows "loopBody e apiUrl apiKey totalFiles f (c, pg) =
     (env_sleep e (filesProcessedCount c + 1),
      importFile e apiUrl apiKey f
        (c\<lparr>filesProcessedCount := filesProcessedCount c + 1\<rparr>,
         pg\<lparr>logOutput := logOutput pg @
             [ProcessingFile (filesProcessedCount c + 1) totalFiles (file_name f)]\<rparr>))"
proof -
  let ?st = "(c\<lparr>filesProcessedCount := filesProcessedCount c + 1\<rparr>,
         pg\<lparr>logOutput := logOutput pg @
             [ProcessingFile (filesProcessedCount c + 1) totalFiles (file_name f)]\<rparr>)"
  obtain c2 pg2 where imp: "importFile e apiUrl apiKey f ?st = (c2, pg2)"
    by (cases "importFile e apiUrl apiKey f ?st")
  have "filesProcessedCount c2 = filesProcessedCount c + 1"
    using importFile_processed [of e apiUrl apiKey f "fst ?st" "snd ?st"] imp by simp
  with imp assms show ?thesis
    by (simp add: loopBody_def logMessage_def Let_def)
qed

section \<open>Lemmas about the run\<close>

lemma startImportProcess_invalid:
  assumes "removeTrailingSlash (trim karakeepUrl) = [] \<or> trim karakeepApiKey = [] \<or> files = []"
  shows "startImportProcess e karakeepUrl karakeepApiKey files pg =
     (None, \<lparr>logOutput = [LogCleared, StartingImport, ValidationFailed],
             fetched = fetched pg, filesRead = filesRead pg,
             startButton_disabled = False\<rparr>)"
  using assms
  by (cases pg) (auto simp: startImportProcess_def clearLog_def logMessage_def Let_def)

lemma startImportProcess_valid:
  assumes "removeTrailingSlash (trim karakeepUrl) \<noteq> []" "trim karakeepApiKey \<noteq> []"
    "files \<noteq> []"
  shows "startImportProcess e karakeepUrl karakeepApiKey files pg =
     (case processFiles e (removeTrailingSlash (trim karakeepUrl)) (trim karakeepApiKey)
             (length files) files
             (noCounts, loopStartPage (removeTrailingSlash (trim karakeepUrl)) (length files) pg) of
        (thrown, c, pg4) \<Rightarrow>
          (Some c,
           pg4\<lparr>logOutput := logOutput pg4 @
                   (case thrown of None \<Rightarrow> [] | Some err \<Rightarrow> [FatalError err, ImportHalted]) @
                   summary (length files) c,
                startButton_disabled := False\<rparr>))"
proof -
  have start: "logMessage (ProcessingBatch (length files))
      (if \<not> endsWith (removeTrailingSlash (trim karakeepUrl)) ''/api/v1''
       then logMessage UrlSuffixWarning
              (logMessage StartingImport ((clearLog pg)\<lparr>startButton_disabled := True\<rparr>))
       else logMessage StartingImport ((clearLog pg)\<lparr>startButton_disabled := True\<rparr>)) =
      loopStartPage (removeTrailingSlash (trim karakeepUrl)) (length files) pg"
    by (cases pg) (simp add: loopStartPage_def clearLog_def logMessage_def)
  obtain thrown c pg4 where run:
    "processFiles e (removeTrailingSlash (trim karakeepUrl)) (trim karakeepApiKey)
       (length files) files
       (noCounts, loopStartPage (removeTrailingSlash (trim karakeepUrl)) (length files) pg) =
     (thrown, c, pg4)"
    using prod_cases3 by blast
  have "startImportProcess e karakeepUrl karakeepApiKey files pg =
     (Some c,
      (case thrown of None \<Rightarrow> pg4
       | Some err \<Rightarrow> logMessage ImportHalted (logMessage (FatalError err) pg4))
      \<lparr>logOutput :=
          logOutput (case thrown of None \<Rightarrow> pg4
             | Some err \<Rightarrow> logMessage ImportHalted (logMessage (FatalError err) pg4)) @
          summary (length files) c,
        startButton_disabled := False\<rparr>)"
    using assms run
    by (simp add: startImportProcess_def Let_def start noCounts_def [symmetric]
        split del: if_split)
  then show ?thesis
    using run by (cases thrown) (simp_all add: logMessage_def)
qed

lemma loopBody_effects:
  fixes e apiUrl apiKey totalFiles f c pg
  defines "r \<equiv> loopBody e apiUrl apiKey totalFiles f (c, pg)"
  defines "k \<equiv> (if isMarkdownName (file_name f) then 1 else 0 :: nat)"
  shows "length (fetched (snd (snd r))) \<le> length (fetched pg) + k"
    and "set (filesRead (snd (snd r))) \<subseteq>
           set (filesRead pg) \<union> file_name ` set (markdownFiles [f])"
    and "filesSyncedSuccessfully (fst (snd r)) \<le> filesSyncedSuccessfully c + k"
    and "filesProcessedCount (fst (snd r)) = filesProcessedCount c + 1"
proof -
  have "length (fetched (snd (snd r))) \<le> length (fetched pg) + k \<and>
        set (filesRead (snd (snd r))) \<subseteq>
           set (filesRead pg) \<union> file_name ` set (markdownFiles [f]) \<and>
        filesSyncedSuccessfully (fst (snd r)) \<le> filesSyncedSuccessfully c + k \<and>
        filesProcessedCount (fst (snd r)) = filesProcessedCount c + 1"
  proof (cases "isMarkdownName (file_name f)")
    case False
    then show ?thesis
      by (simp add: r_def k_def loopBody_skip)
  next
    case md: True
    show ?thesis
    proof (cases "file_read f")
      case (ReadOk content)
      with md show ?thesis
        by (simp add: r_def k_def loopBody_markdown importFile_read_ok markdownFiles_def)
    next
      case (ReadFailed code)
      with md show ?thesis
        by (simp add: r_def k_def loopBody_markdown importFile_read_failed markdownFiles_def)
    qed
  qed
  then show "length (fetched (snd (snd r))) \<le> length (fetched pg) + k"
    and "set (filesRead (snd (snd r))) \<subseteq>
           set (filesRead pg) \<union> file_name ` set (markdownFiles [f])"
    and "filesSyncedSuccessfully (fst (snd r)) \<le> filesSyncedSuccessfully c + k"
    and "filesProcessedCount (fst (snd r)) = filesProcessedCount c + 1"
    by simp_all
qed

lemma processFiles_effects:
  "length (fetched (snd (snd (processFiles e apiUrl apiKey totalFiles files (c, pg))))) \<le>
     length (fetched pg) + length (markdownFiles files) \<and>
   set (filesRead (snd (snd (processFiles e apiUrl apiKey totalFiles files (c, pg))))) \<subseteq>
     set (filesRead pg) \<union> file_name ` set (markdownFiles files) \<and>
   filesSyncedSuccessfully (fst (snd (processFiles e apiUrl apiKey totalFiles files (c, pg)))) \<le>
     filesSyncedSuccessfully c + length (markdownFiles files) \<and>
   filesProcessedCount (fst (snd (processFiles e apiUrl apiKey totalFiles files (c, pg)))) \<le>
     filesProcessedCount c + length files \<and>
   (fst (processFiles e apiUrl apiKey totalFiles files (c, pg)) = None \<longrightarrow>
      filesProcessedCount (fst (snd (processFiles e apiUrl apiKey totalFiles files (c, pg)))) =
        filesProcessedCount c + length files)"
proof (induction files arbitrary: c pg)
  case Nil
  show ?case by (simp add: markdownFiles_def)
next
  case (Cons f files)
  obtain thrown c1 pg1 where step: "loopBody e apiUrl apiKey totalFiles f (c, pg) = (thrown, c1, pg1)"
    using prod_cases3 by blast
  note eff = loopBody_effects [of e apiUrl apiKey totalFiles f c pg, unfolded step, simplified]
  have split: "length (markdownFiles (f # files)) =
      (if isMarkdownName (file_name f) then 1 else 0) + length (markdownFiles files)"
    "set (markdownFiles (f # files)) = set (markdownFiles [f]) \<union> set (markdownFiles files)"
    by (auto simp: markdownFiles_def)
  show ?case
  proof (cases thrown)
    case (Some err)
    with step eff show ?thesis
      by (auto simp: split)
  next
    case None
    with step have run: "processFiles e apiUrl apiKey totalFiles (f # files) (c, pg) =
        processFiles e apiUrl apiKey totalFiles files (c1, pg1)"
      by simp
    from Cons.IH [of c1 pg1] eff show ?thesis
      unfolding run split by (auto simp: image_Un)
  qed
qed

lemma loopBody_created:
  assumes "isMarkdownName (file_name f)" and "file_read f = ReadOk content"
    and "confirmsCreation (env_fetch e (length (fetched pg))
           (createRequest apiUrl apiKey (getFileNameWithoutExtension (file_name f)) content))"
  shows "\<exists>pg'. loopBody e apiUrl apiKey totalFiles f (c, pg) =
           (env_sleep e (filesProcessedCount c + 1),
            c\<lparr>filesProcessedCount := filesProcessedCount c + 1,
               filesSyncedSuccessfully := filesSyncedSuccessfully c + 1\<rparr>, pg') \<and>
         fetched pg' = fetched pg @
           [createRequest apiUrl apiKey (getFileNameWithoutExtension (file_name f)) content] \<and>
         filesRead pg' = filesRead pg @ [file_name f] \<and>
         filter isCaughtError (logOutput pg') = filter isCaughtError (logOutput pg)"
proof -
  let ?c1 = "c\<lparr>filesProcessedCount := filesProcessedCount c + 1\<rparr>"
  let ?pg1 = "pg\<lparr>logOutput := logOutput pg @
             [ProcessingFile (filesProcessedCount c + 1) totalFiles (file_name f)]\<rparr>"
  obtain c2 pg2 where imp: "importFile e apiUrl apiKey f (?c1, ?pg1) = (c2, pg2)"
    by (cases "importFile e apiUrl apiKey f (?c1, ?pg1)")
  note facts = importFile_read_ok [OF assms(2), of e apiUrl apiKey ?c1 ?pg1, unfolded imp]
  from facts(1) assms(3) have "c2 = ?c1\<lparr>filesSyncedSuccessfully := filesSyncedSuccessfully c + 1\<rparr>"
    by simp
  moreover from facts(2) have "fetched pg2 = fetched pg @
      [createRequest apiUrl apiKey (getFileNameWithoutExtension (file_name f)) content]"
    by simp
  moreover from facts(3) have "filesRead pg2 = filesRead pg @ [file_name f]"
    by simp
  moreover from facts(4) have "filter isCaughtError (logOutput pg2) = filter isCaughtError (logOutput pg)"
    by simp
  ultimately show ?thesis
    using loopBody_markdown [OF assms(1), of e apiUrl apiKey totalFiles c pg] imp
    by simp
qed

lemma loopBody_read_failed:
  assumes "isMarkdownName (file_name f)" and "file_read f = ReadFailed code"
  shows "loopBody e apiUrl apiKey totalFiles f (c, pg) =
           (env_sleep e (filesProcessedCount c + 1),
            c\<lparr>filesProcessedCount := filesProcessedCount c + 1\<rparr>,
            pg\<lparr>logOutput := logOutput pg @
                   [ProcessingFile (filesProcessedCount c + 1) totalFiles (file_name f),
                    FileError (file_name f) (FileReadFailure (file_name f) code)],
               filesRead := filesRead pg @ [file_name f]\<rparr>)"
  using assms by (simp add: loopBody_markdown importFile_read_failed)

section \<open>The result of a create call\<close>

text \<open>
  C2, as the specification states it, fails: a 201 response whose JSON body is
  \<open>{"id": 0}\<close> has a 2xx status and an \<open>id\<close> field that is a number, and
  \<open>createRootItemInKarakeep\<close> returns \<open>false\<close> for it, because the source tests
  the \<open>id\<close> for truthiness before it converts it.
\<close>

theorem createRootItemInKarakeep_zero_id:
  "created_per_spec (Resolved (jsonResponse 201 (JObject [(''id'', JNumber 0)]))) \<and>
   fst (createRootItemInKarakeep
          (constantEnv (Resolved (jsonResponse 201 (JObject [(''id'', JNumber 0)]))))
          ''http://host/api/v1'' ''key'' ''notes'' ''# Notes'' emptyPage) = Inr False"
  by (simp add: createRoot_result constantEnv_def confirmsCreation_def created_per_spec_def
      jsonResponse_def ok_def usableId_simps)

text \<open>
  C2, amended. \<open>createRootItemInKarakeep\<close> returns \<open>true\<close> if and only if \<open>fetch\<close>
  resolves with a 2xx status other than 204, the \<open>content-length\<close> header is not
  \<open>0\<close>, the body parses as a JSON object, and its \<open>id\<close> is truthy and
  \<open>String\<close> converts it, without throwing, to a non-empty string: for a string
  \<open>id\<close> that it is not empty, for a number that it is not zero, for a boolean that it
  is true, for an object that it has no \<open>toString\<close> property of its own. In every
  other case, a rejected \<open>fetch\<close> and a conversion that throws included, it returns
  \<open>false\<close>.
\<close>

theorem createRootItemInKarakeep_confirms:
  "fst (createRootItemInKarakeep e apiUrl apiKey title textContent pg) =
     Inr (confirmsCreation (env_fetch e (length (fetched pg))
            (createRequest apiUrl apiKey title textContent))) \<and>
   confirmsCreation (Rejected msg) = False \<and>
   confirmsCreation (Resolved r) =
     (ok r \<and> status r \<noteq> 204 \<and> content_length r \<noteq> Some ''0'' \<and>
      (\<exists>kvs v s. body_json r = Inr (JObject kvs) \<and> map_of kvs ''id'' = Some v \<and>
         truthy v \<and> js_String v = Inr s \<and> s \<noteq> [])) \<and>
   usableId (JString str) = (str \<noteq> []) \<and>
   usableId (JNumber n) = (n \<noteq> 0) \<and>
   usableId (JBool b) = b \<and>
   usableId (JObject props) = (map_of props ''toString'' = None)"
proof -
  have usable: "usableId v = (truthy v \<and> (\<exists>s. js_String v = Inr s \<and> s \<noteq> []))" for v
    by (cases "js_String v") (simp_all add: usableId_def)
  have "(case body_json r of Inl msg \<Rightarrow> False
         | Inr data \<Rightarrow> (case get_id (Some data) of None \<Rightarrow> False | Some v \<Rightarrow> usableId v)) =
        (\<exists>kvs v s. body_json r = Inr (JObject kvs) \<and> map_of kvs ''id'' = Some v \<and>
           truthy v \<and> js_String v = Inr s \<and> s \<noteq> [])"
  proof (cases "body_json r")
    case (Inl msg)
    then show ?thesis by simp
  next
    case (Inr data)
    then show ?thesis
      by (cases data) (auto simp: usable split: option.splits)
  qed
  then have "confirmsCreation (Resolved r) =
     (ok r \<and> status r \<noteq> 204 \<and> content_length r \<noteq> Some ''0'' \<and>
      (\<exists>kvs v s. body_json r = Inr (JObject kvs) \<and> map_of kvs ''id'' = Some v \<and>
         truthy v \<and> js_String v = Inr s \<and> s \<noteq> []))"
    by (simp add: confirmsCreation_def)
  then show ?thesis
    by (simp add: createRoot_result usableId_simps confirmsCreation_def)
qed

theorem createRootItemInKarakeep_confirms_witness:
  "fst (createRootItemInKarakeep
          (constantEnv (Resolved (jsonResponse 201 (JObject [(''id'', JNumber 42)]))))
          ''http://host/api/v1'' ''key'' ''notes'' ''# Notes'' emptyPage) = Inr True \<and>
   fst (createRootItemInKarakeep
          (constantEnv (Resolved (jsonResponse 204 (JObject [(''id'', JNumber 42)]))))
          ''http://host/api/v1'' ''key'' ''notes'' ''# Notes'' emptyPage) = Inr False \<and>
   fst (createRootItemInKarakeep
          (constantEnv (Resolved (jsonResponse 200 (JObject [(''name'', JString ''x'')]))))
          ''http://host/api/v1'' ''key'' ''notes'' ''# Notes'' emptyPage) = Inr False \<and>
   fst (createRootItemInKarakeep
          (constantEnv (Resolved (jsonResponse 201
             (JObject [(''id'', JObject [(''toString'', JNumber 1)])]))))
          ''http://host/api/v1'' ''key'' ''notes'' ''# Notes'' emptyPage) = Inr False \<and>
   fst (createRootItemInKarakeep
          (constantEnv (Resolved (jsonResponse 201
             (JObject [(''id'', JObject [(''uuid'', JString ''a1'')])]))))
          ''http://host/api/v1'' ''key'' ''notes'' ''# Notes'' emptyPage) = Inr True"
  using
    createRootItemInKarakeep_confirms
      [of "constantEnv (Resolved (jsonResponse 201 (JObject [(''id'', JNumber 42)])))"
        "''http://host/api/v1''" "''key''" "''notes''" "''# Notes''" emptyPage]
    createRootItemInKarakeep_confirms
      [of "constantEnv (Resolved (jsonResponse 204 (JObject [(''id'', JNumber 42)])))"
        "''http://host/api/v1''" "''key''" "''notes''" "''# Notes''" emptyPage]
    createRootItemInKarakeep_confirms
      [of "constantEnv (Resolved (jsonResponse 200 (JObject [(''name'', JString ''x'')])))"
        "''http://host/api/v1''" "''key''" "''notes''" "''# Notes''" emptyPage]
    createRootItemInKarakeep_confirms
      [of "constantEnv (Resolved (jsonResponse 201
             (JObject [(''id'', JObject [(''toString'', JNumber 1)])])))"
        "''http://host/api/v1''" "''key''" "''notes''" "''# Notes''" emptyPage]
    createRootItemInKarakeep_confirms
      [of "constantEnv (Resolved (jsonResponse 201
             (JObject [(''id'', JObject [(''uuid'', JString ''a1'')])])))"
        "''http://host/api/v1''" "''key''" "''notes''" "''# Notes''" emptyPage]
  by (simp add: constantEnv_def confirmsCreation_def jsonResponse_def ok_def usableId_simps)

section \<open>The request of a create call\<close>

lemma createRoot_request:
  "fetched (snd (createRootItemInKarakeep e apiUrl apiKey title textContent pg)) =
     fetched pg @
       [\<lparr>req_url = apiUrl @ ''/bookmarks'', req_method = ''POST'',
         req_headers = [(''Authorization'', ''Bearer '' @ apiKey),
                        (''Content-Type'', ''application/json''),
                        (''Accept'', ''application/json'')],
         req_body = Some
           \<lparr>p_title = truncateTitle title, p_text = textContent, p_type = ''text'',
            p_archived = False, p_favourited = False,
            p_note = ''Imported from Markdown file: '' @ title @ ''.md'',
            p_summary = []\<rparr>\<rparr>]"
  by (simp add: createRoot_fetched createRequest_def requestOptions_def bookmarkPayload_def)

lemma loopBody_request:
  assumes "isMarkdownName (file_name f)" and "file_read f = ReadOk content"
  shows "fetched (snd (snd (loopBody e apiUrl apiKey totalFiles f (c, pg)))) =
           fetched pg @ [createRequest apiUrl apiKey
              (take (length (file_name f) - 3) (file_name f)) content]"
  using assms by (simp add: loopBody_markdown importFile_read_ok(2) getFileName_markdown)

text \<open>
  C4. The claim asks for a note that refers to the original file name, and the source
  says the same in its comment on the \<open>note\<close> field. The code builds the note from the
  derived title followed by \<open>.md\<close>. For the file \<open>Notes.MD\<close>, which the
  case-insensitive test lets through, the one request sent is a POST to the base URL
  followed by \<open>/bookmarks\<close> whose payload has the title, the text, the type, the two
  flags and the summary that the claim lists, and a note that names \<open>Notes.md\<close>, which
  is not the name of the file. A title of 300 characters is sent as its first 252
  characters followed by \<open>...\<close>.
\<close>

theorem createRootItemInKarakeep_note_changes_extension:
  "isMarkdownName ''Notes.MD'' \<and>
   fetched (snd (snd (loopBody (constantEnv (Rejected ''offline'')) ''http://host/api/v1''
            ''key'' 1 \<lparr>file_name = ''Notes.MD'', file_read = ReadOk ''# Notes''\<rparr>
            (noCounts, emptyPage)))) =
     [\<lparr>req_url = ''http://host/api/v1/bookmarks'', req_method = ''POST'',
       req_headers = [(''Authorization'', ''Bearer key''),
                      (''Content-Type'', ''application/json''),
                      (''Accept'', ''application/json'')],
       req_body = Some
         \<lparr>p_title = ''Notes'', p_text = ''# Notes'', p_type = ''text'',
          p_archived = False, p_favourited = False,
          p_note = ''Imported from Markdown file: Notes.md'',
          p_summary = []\<rparr>\<rparr>] \<and>
   ''Imported from Markdown file: Notes.md'' \<noteq> ''Imported from Markdown file: Notes.MD'' \<and>
   map (map_option p_title \<circ> req_body)
     (fetched (snd (createRootItemInKarakeep (constantEnv (Rejected ''offline''))
        ''http://host/api/v1'' ''key'' (replicate 300 (CHR ''x'')) ''# Notes'' emptyPage))) =
     [Some (replicate 252 (CHR ''x'') @ ''...'')]"
proof -
  have md: "isMarkdownName ''Notes.MD''"
    by code_simp
  have short: "truncateTitle ''Notes'' = ''Notes''"
    by (simp add: truncateTitle_def truncateTitleTo_def MAX_KARAKEEP_TITLE_LENGTH_def)
  have long: "truncateTitle (replicate 300 (CHR ''x'')) = replicate 252 (CHR ''x'') @ ''...''"
    by (simp add: truncateTitle_def truncateTitleTo_def MAX_KARAKEEP_TITLE_LENGTH_def
        substring_prefix)
  have sent: "fetched (snd (snd (loopBody (constantEnv (Rejected ''offline''))
            ''http://host/api/v1'' ''key'' 1
            \<lparr>file_name = ''Notes.MD'', file_read = ReadOk ''# Notes''\<rparr>
            (noCounts, emptyPage)))) =
     [createRequest ''http://host/api/v1'' ''key'' ''Notes'' ''# Notes'']"
    using md
      loopBody_request [of "\<lparr>file_name = ''Notes.MD'', file_read = ReadOk ''# Notes''\<rparr>"
        "''# Notes''" "constantEnv (Rejected ''offline'')" "''http://host/api/v1''" "''key''"
        1 noCounts emptyPage]
    by (simp add: emptyPage_def)
  have titled: "map (map_option p_title \<circ> req_body)
     (fetched (snd (createRootItemInKarakeep (constantEnv (Rejected ''offline''))
        ''http://host/api/v1'' ''key'' (replicate 300 (CHR ''x'')) ''# Notes'' emptyPage))) =
     [Some (replicate 252 (CHR ''x'') @ ''...'')]"
    by (simp add: createRoot_request long emptyPage_def)
  from md sent titled show ?thesis
    by (simp add: createRequest_def requestOptions_def bookmarkPayload_def short)
qed

section \<open>No exception leaves a create call\<close>

text \<open>
  C5. \<open>createRootItemInKarakeep\<close> never throws: for every input and every way the
  request can settle it returns a boolean. The two places of its \<open>try\<close> block that can
  throw are the call of \<open>fetchKarakeep\<close> and the conversion of the \<open>id\<close> to a
  string; whenever either throws, the exception is caught, logged, and the result is
  \<open>false\<close>. So a rejected \<open>fetch\<close> (a network error), a status that is not 2xx, a
  body that does not parse as JSON, a body without an \<open>id\<close> and an \<open>id\<close> that
  cannot be converted all give \<open>false\<close>.
\<close>

theorem createRootItemInKarakeep_never_throws:
  "(\<exists>b. fst (createRootItemInKarakeep e apiUrl apiKey title textContent pg) = Inr b) \<and>
   (fst (fetchKarakeep e (apiUrl @ ''/bookmarks'') ''POST'' apiKey
          (Some (bookmarkPayload title textContent))
          (logMessage (AttemptingCreate title) pg)) = Inl err \<longrightarrow>
      fst (createRootItemInKarakeep e apiUrl apiKey title textContent pg) = Inr False) \<and>
   (fetchKarakeep e (apiUrl @ ''/bookmarks'') ''POST'' apiKey
          (Some (bookmarkPayload title textContent))
          (logMessage (AttemptingCreate title) pg) = (Inr created, pg2) \<and>
    newBookmarkIdOf created = Inl err \<longrightarrow>
      createRootItemInKarakeep e apiUrl apiKey title textContent pg =
        (Inr False, logMessage (CreateFailed title err) pg2)) \<and>
   (let outcome = env_fetch e (length (fetched pg))
                    (createRequest apiUrl apiKey title textContent)
    in (outcome = Rejected msg \<or>
        (\<exists>r. outcome = Resolved r \<and>
           (\<not> ok r \<or> (\<exists>m. body_json r = Inl m) \<or>
            (\<exists>data. body_json r = Inr data \<and>
               (get_id (Some data) = None \<or>
                (\<exists>v thrown. get_id (Some data) = Some v \<and> js_String v = Inl thrown))))))
       \<longrightarrow> fst (createRootItemInKarakeep e apiUrl apiKey title textContent pg) = Inr False)"
proof -
  let ?call = "fetchKarakeep e (apiUrl @ ''/bookmarks'') ''POST'' apiKey
          (Some (bookmarkPayload title textContent))
          (logMessage (AttemptingCreate title) pg)"
  have never: "\<exists>b. fst (createRootItemInKarakeep e apiUrl apiKey title textContent pg) = Inr b"
    by (simp add: createRoot_result)
  have rethrown: "fst ?call = Inl err \<Longrightarrow>
      fst (createRootItemInKarakeep e apiUrl apiKey title textContent pg) = Inr False"
    by (cases ?call) (simp add: createRootItemInKarakeep_def Let_def)
  have converted: "?call = (Inr created, pg2) \<and> newBookmarkIdOf created = Inl err \<Longrightarrow>
      createRootItemInKarakeep e apiUrl apiKey title textContent pg =
        (Inr False, logMessage (CreateFailed title err) pg2)"
    by (simp add: createRootItemInKarakeep_def Let_def)
  have failures: "\<And>outcome. outcome = env_fetch e (length (fetched pg))
                    (createRequest apiUrl apiKey title textContent) \<Longrightarrow>
      outcome = Rejected msg \<or>
        (\<exists>r. outcome = Resolved r \<and>
           (\<not> ok r \<or> (\<exists>m. body_json r = Inl m) \<or>
            (\<exists>data. body_json r = Inr data \<and>
               (get_id (Some data) = None \<or>
                (\<exists>v thrown. get_id (Some data) = Some v \<and> js_String v = Inl thrown))))) \<Longrightarrow>
      fst (createRootItemInKarakeep e apiUrl apiKey title textContent pg) = Inr False"
    by (auto simp: createRoot_result confirmsCreation_def usableId_def)
  from never rethrown converted failures show ?thesis
    unfolding Let_def by blast
qed

theorem createRootItemInKarakeep_never_throws_witness:
  "fst (fetchKarakeep (constantEnv (Rejected ''offline''))
          (''http://host/api/v1'' @ ''/bookmarks'') ''POST'' ''key''
          (Some (bookmarkPayload ''notes'' ''# Notes''))
          (logMessage (AttemptingCreate ''notes'') emptyPage)) =
     Inl (NetworkError ''offline'') \<and>
   fst (createRootItemInKarakeep (constantEnv (Rejected ''offline''))
          ''http://host/api/v1'' ''key'' ''notes'' ''# Notes'' emptyPage) = Inr False \<and>
   newBookmarkIdOf (Some (JObject [(''id'', JObject [(''toString'', JNumber 1)])])) =
     Inl TypeError \<and>
   createRootItemInKarakeep
       (constantEnv (Resolved (jsonResponse 201
          (JObject [(''id'', JObject [(''toString'', JNumber 1)])]))))
       ''http://host/api/v1'' ''key'' ''notes'' ''# Notes'' emptyPage =
     (Inr False,
      \<lparr>logOutput = [AttemptingCreate ''notes'',
                    ApiRequest ''POST'' ''http://host/api/v1/bookmarks'',
                    ApiResponseOK ''POST'' ''http://host/api/v1/bookmarks'' 201,
                    CreateFailed ''notes'' TypeError],
       fetched = [createRequest ''http://host/api/v1'' ''key'' ''notes'' ''# Notes''],
       filesRead = [], startButton_disabled = False\<rparr>)"
proof -
  let ?down = "constantEnv (Rejected ''offline'')"
  let ?data = "JObject [(''id'', JObject [(''toString'', JNumber 1)])]"
  let ?odd = "constantEnv (Resolved (jsonResponse 201 ?data))"
  let ?pg2 = "\<lparr>logOutput = [AttemptingCreate ''notes'',
                    ApiRequest ''POST'' ''http://host/api/v1/bookmarks'',
                    ApiResponseOK ''POST'' ''http://host/api/v1/bookmarks'' 201],
       fetched = [createRequest ''http://host/api/v1'' ''key'' ''notes'' ''# Notes''],
       filesRead = [], startButton_disabled = False\<rparr>"
  have thrown: "fst (fetchKarakeep ?down
          (''http://host/api/v1'' @ ''/bookmarks'') ''POST'' ''key''
          (Some (bookmarkPayload ''notes'' ''# Notes''))
          (logMessage (AttemptingCreate ''notes'') emptyPage)) =
     Inl (NetworkError ''offline'')"
    by (simp add: fetchKarakeep_def constantEnv_def Let_def)
  have answered: "fetchKarakeep ?odd
          (''http://host/api/v1'' @ ''/bookmarks'') ''POST'' ''key''
          (Some (bookmarkPayload ''notes'' ''# Notes''))
          (logMessage (AttemptingCreate ''notes'') emptyPage) = (Inr (Some ?data), ?pg2)"
    by (simp add: fetchKarakeep_def constantEnv_def jsonResponse_def ok_def Let_def
        logMessage_def emptyPage_def createRequest_def)
  have unconverted: "newBookmarkIdOf (Some ?data) = Inl TypeError"
    by (simp add: newBookmarkIdOf_def)
  have caught_fetch: "fst (createRootItemInKarakeep ?down
          ''http://host/api/v1'' ''key'' ''notes'' ''# Notes'' emptyPage) = Inr False"
    using thrown
      createRootItemInKarakeep_never_throws
        [of ?down "''http://host/api/v1''" "''key''" "''notes''" "''# Notes''" emptyPage
          "NetworkError ''offline''" "None" emptyPage "''offline''"]
    by blast
  have caught_string: "createRootItemInKarakeep ?odd
       ''http://host/api/v1'' ''key'' ''notes'' ''# Notes'' emptyPage =
     (Inr False, logMessage (CreateFailed ''notes'' TypeError) ?pg2)"
    using answered unconverted
      createRootItemInKarakeep_never_throws
        [of ?odd "''http://host/api/v1''" "''key''" "''notes''" "''# Notes''" emptyPage
          TypeError "Some ?data" ?pg2 "''offline''"]
    by blast
  from thrown caught_fetch unconverted caught_string show ?thesis
    by (simp add: logMessage_def)
qed

section \<open>From file name to title\<close>

text \<open>
  C9, as the specification states it, fails: for the name \<open>notes.\<close> the rule removes
  the final \<open>.\<close> and gives \<open>notes\<close>, while \<open>getFileNameWithoutExtension\<close> leaves
  the name as it is, because its pattern asks for at least one character after the dot.
\<close>

theorem getFileNameWithoutExtension_trailing_dot:
  "title_per_spec ''notes.'' = ''notes'' \<and>
   getFileNameWithoutExtension ''notes.'' = ''notes.''"
  by (simp add: title_per_spec_def extensionAt_def)

text \<open>
  C9, amended. The derivation removes the final \<open>.\<close> and everything after it when at
  least one character follows that \<open>.\<close> and none of them is \<open>/\<close>, and there it
  agrees with the rule of the specification; a name with nothing after its final
  \<open>.\<close>, with a \<open>/\<close> after it, or with no \<open>.\<close> at all is left unchanged. So
  \<open>notes.md\<close> gives \<open>notes\<close>, \<open>a.b.md\<close> gives \<open>a.b\<close> and \<open>noext\<close> gives
  \<open>noext\<close>.
\<close>

theorem getFileNameWithoutExtension_rule:
  "(ext \<noteq> [] \<and> CHR ''.'' \<notin> set ext \<and> CHR ''/'' \<notin> set ext \<longrightarrow>
      getFileNameWithoutExtension (stem @ CHR ''.'' # ext) = stem \<and>
      title_per_spec (stem @ CHR ''.'' # ext) = stem) \<and>
   (CHR ''.'' \<notin> set ext \<and> (ext = [] \<or> CHR ''/'' \<in> set ext) \<longrightarrow>
      getFileNameWithoutExtension (stem @ CHR ''.'' # ext) = stem @ CHR ''.'' # ext) \<and>
   (CHR ''.'' \<notin> set name \<longrightarrow>
      getFileNameWithoutExtension name = name \<and> title_per_spec name = name) \<and>
   getFileNameWithoutExtension ''notes.md'' = ''notes'' \<and>
   getFileNameWithoutExtension ''a.b.md'' = ''a.b'' \<and>
   getFileNameWithoutExtension ''noext'' = ''noext''"
proof -
  have ex: "getFileNameWithoutExtension ''notes.md'' = ''notes''"
    "getFileNameWithoutExtension ''a.b.md'' = ''a.b''"
    "getFileNameWithoutExtension ''noext'' = ''noext''"
    by (simp_all add: extensionAt_def)
  have "CHR ''.'' \<notin> set name \<Longrightarrow> title_per_spec name = name"
    by (simp add: title_per_spec_def)
  with ex show ?thesis
    using getFileName_match [of ext stem] getFileName_nomatch [of ext stem]
      title_per_spec_split [of ext stem] getFileName_no_dot [of name]
    by blast
qed

theorem getFileNameWithoutExtension_rule_witness:
  "getFileNameWithoutExtension ''archive.tar.gz'' = ''archive.tar'' \<and>
   getFileNameWithoutExtension ''notes.'' = ''notes.'' \<and>
   getFileNameWithoutExtension ''a.b/c'' = ''a.b/c'' \<and>
   getFileNameWithoutExtension ''README'' = ''README''"
  using getFileNameWithoutExtension_rule [of "''gz''" "''archive.tar''" "''README''"]
    getFileNameWithoutExtension_rule [of "[]" "''notes''" "[]"]
    getFileNameWithoutExtension_rule [of "''b/c''" "''a''" "[]"]
  by simp

section \<open>Files that are not Markdown\<close>

text \<open>
  C1, as the specification states it, fails: in a run over the single file
  \<open>notes.txt\<close> the file is skipped, and the run still ends with a processed count of 1,
  because the source increments \<open>filesProcessedCount\<close> before it looks at the name.
\<close>

theorem startImportProcess_counts_skipped_file:
  "\<not> isMarkdownName ''notes.txt'' \<and>
   startImportProcess (constantEnv (Rejected ''offline'')) ''http://host/api/v1'' ''key''
       [\<lparr>file_name = ''notes.txt'', file_read = ReadOk ''x''\<rparr>] emptyPage =
     (Some \<lparr>filesProcessedCount = 1, filesSyncedSuccessfully = 0\<rparr>,
      \<lparr>logOutput = [LogCleared, StartingImport, ProcessingBatch 1,
                    ProcessingFile 1 1 ''notes.txt'', SkippingFile ''notes.txt'',
                    SummaryHeader, SummaryTotal 1, SummaryProcessed 1, SummarySucceeded 0,
                    EndOfRun],
       fetched = [], filesRead = [], startButton_disabled = False\<rparr>)"
proof -
  have no: "\<not> isMarkdownName ''notes.txt''"
    by code_simp
  have url: "removeTrailingSlash (trim ''http://host/api/v1'') = ''http://host/api/v1''"
    and key: "trim ''key'' = ''key''"
    and suffix: "endsWith ''http://host/api/v1'' ''/api/v1''"
    by code_simp+
  from no show ?thesis
    by (simp add: startImportProcess_valid url key suffix loopBody_skip loopStartPage_def
        noCounts_def emptyPage_def summary_def)
qed

text \<open>
  C1, amended. A file whose name does not end in \<open>.md\<close> (in any letter case) is
  skipped with a logged warning: its iteration adds one to the processed count and does
  nothing else but write the two log entries, so it leaves the succeeded count alone,
  reads no file and issues no request. Over a whole run the requests issued and the
  successes counted are at most as many as the Markdown files, only Markdown files are
  read, and a run that no exception cuts short counts every file as processed.
\<close>

theorem loopBody_skips_other_files:
  "(\<not> isMarkdownName (file_name f) \<longrightarrow>
      loopBody e apiUrl apiKey totalFiles f (c, pg) =
        (None, c\<lparr>filesProcessedCount := filesProcessedCount c + 1\<rparr>,
         pg\<lparr>logOutput := logOutput pg @
                [ProcessingFile (filesProcessedCount c + 1) totalFiles (file_name f),
                 SkippingFile (file_name f)]\<rparr>) \<and>
      isError (SkippingFile (file_name f))) \<and>
   length (fetched (snd (snd (processFiles e apiUrl apiKey totalFiles files (c, pg))))) \<le>
     length (fetched pg) + length (markdownFiles files) \<and>
   set (filesRead (snd (snd (processFiles e apiUrl apiKey totalFiles files (c, pg))))) \<subseteq>
     set (filesRead pg) \<union> file_name ` set (markdownFiles files) \<and>
   filesSyncedSuccessfully (fst (snd (processFiles e apiUrl apiKey totalFiles files (c, pg)))) \<le>
     filesSyncedSuccessfully c + length (markdownFiles files) \<and>
   (fst (processFiles e apiUrl apiKey totalFiles files (c, pg)) = None \<longrightarrow>
      filesProcessedCount (fst (snd (processFiles e apiUrl apiKey totalFiles files (c, pg)))) =
        filesProcessedCount c + length files)"
  using loopBody_skip [of f e apiUrl apiKey totalFiles c pg]
    processFiles_effects [of e apiUrl apiKey totalFiles files c pg]
  by simp

theorem loopBody_skips_other_files_witness:
  "loopBody (constantEnv (Rejected ''offline'')) ''http://host/api/v1'' ''key'' 2
       \<lparr>file_name = ''photo.PNG'', file_read = ReadOk ''x''\<rparr> (noCounts, emptyPage) =
     (None, noCounts\<lparr>filesProcessedCount := 1\<rparr>,
      emptyPage\<lparr>logOutput := [ProcessingFile 1 2 ''photo.PNG'', SkippingFile ''photo.PNG'']\<rparr>) \<and>
   filesProcessedCount (fst (snd (processFiles (constantEnv (Rejected ''offline''))
       ''http://host/api/v1'' ''key'' 2
       [\<lparr>file_name = ''photo.PNG'', file_read = ReadOk ''x''\<rparr>,
        \<lparr>file_name = ''todo.txt'', file_read = ReadOk ''y''\<rparr>] (noCounts, emptyPage)))) = 2"
proof -
  let ?e = "constantEnv (Rejected ''offline'')"
  let ?photo = "\<lparr>file_name = ''photo.PNG'', file_read = ReadOk ''x''\<rparr>"
  let ?todo = "\<lparr>file_name = ''todo.txt'', file_read = ReadOk ''y''\<rparr>"
  have no: "\<not> isMarkdownName (file_name ?photo)"
    by code_simp
  have run: "fst (processFiles ?e ''http://host/api/v1'' ''key'' 2 [?photo, ?todo]
                (noCounts, emptyPage)) = None"
    by code_simp
  note inst = loopBody_skips_other_files
      [of ?photo ?e "''http://host/api/v1''" "''key''" 2 noCounts emptyPage "[?photo, ?todo]"]
  from inst no have skipped:
    "loopBody ?e ''http://host/api/v1'' ''key'' 2 ?photo (noCounts, emptyPage) =
       (None, noCounts\<lparr>filesProcessedCount := filesProcessedCount noCounts + 1\<rparr>,
        emptyPage\<lparr>logOutput := logOutput emptyPage @
          [ProcessingFile (filesProcessedCount noCounts + 1) 2 (file_name ?photo),
           SkippingFile (file_name ?photo)]\<rparr>)"
    by blast
  from inst run have counted:
    "filesProcessedCount (fst (snd (processFiles ?e ''http://host/api/v1'' ''key'' 2
        [?photo, ?todo] (noCounts, emptyPage)))) =
     filesProcessedCount noCounts + length [?photo, ?todo]"
    by blast
  have zero: "filesProcessedCount noCounts = 0" "logOutput emptyPage = []"
    by (simp_all add: noCounts_def emptyPage_def)
  from skipped counted show ?thesis
    unfolding zero by simp
qed

section \<open>Validation\<close>

text \<open>
  C7. When the API URL is empty (as typed, or after trimming and removing a trailing
  slash), the API key is empty (as typed, or after trimming) or no file is selected, the
  run ends at once: the only entries logged after the log is cleared are the start
  message and the validation error, which is an error entry; no file is read and no
  request is issued; the function returns before it declares its counters, so nothing is
  counted and no summary is written; the start button is enabled again.
\<close>

theorem startImportProcess_validation:
  "karakeepUrl = [] \<or> removeTrailingSlash (trim karakeepUrl) = [] \<or>
   karakeepApiKey = [] \<or> trim karakeepApiKey = [] \<or> files = [] \<Longrightarrow>
   startImportProcess e karakeepUrl karakeepApiKey files pg =
     (None, \<lparr>logOutput = [LogCleared, StartingImport, ValidationFailed],
             fetched = fetched pg, filesRead = filesRead pg,
             startButton_disabled = False\<rparr>) \<and>
   isError ValidationFailed"
proof -
  assume "karakeepUrl = [] \<or> removeTrailingSlash (trim karakeepUrl) = [] \<or>
          karakeepApiKey = [] \<or> trim karakeepApiKey = [] \<or> files = []"
  moreover have "removeTrailingSlash (trim []) = []" "trim [] = []"
    by (simp_all add: removeTrailingSlash_def trim_def)
  ultimately have
    "removeTrailingSlash (trim karakeepUrl) = [] \<or> trim karakeepApiKey = [] \<or> files = []"
    by auto
  then show ?thesis
    by (simp add: startImportProcess_invalid)
qed

theorem startImportProcess_validation_witness:
  "startImportProcess (constantEnv (Rejected ''offline'')) '' / '' ''key''
       [\<lparr>file_name = ''notes.md'', file_read = ReadOk ''# Notes''\<rparr>] emptyPage =
     (None, \<lparr>logOutput = [LogCleared, StartingImport, ValidationFailed],
             fetched = [], filesRead = [], startButton_disabled = False\<rparr>) \<and>
   startImportProcess (constantEnv (Rejected ''offline'')) ''http://host/api/v1'' ''key''
       [] emptyPage =
     (None, \<lparr>logOutput = [LogCleared, StartingImport, ValidationFailed],
             fetched = [], filesRead = [], startButton_disabled = False\<rparr>)"
proof -
  have url: "removeTrailingSlash (trim '' / '') = []"
    by code_simp
  show ?thesis
    using url
      startImportProcess_validation
        [of "'' / ''" "''key''"
          "[\<lparr>file_name = ''notes.md'', file_read = ReadOk ''# Notes''\<rparr>]"
          "constantEnv (Rejected ''offline'')" emptyPage]
      startImportProcess_validation
        [of "''http://host/api/v1''" "''key''" "[]"
          "constantEnv (Rejected ''offline'')" emptyPage]
    by (simp add: emptyPage_def)
qed

section \<open>The summary\<close>

text \<open>
  C8. Every run that passes validation ends with the summary: the last five log entries
  are the header, the number of files selected, the processed count, the succeeded count
  and the end marker, with the counts the loop stopped at, and the start button is
  enabled again. This holds as well when an exception leaves the loop: the remaining
  files are not visited, the fatal error and the halt message are logged, and the summary
  follows them.
\<close>

theorem startImportProcess_summary:
  "removeTrailingSlash (trim karakeepUrl) \<noteq> [] \<and> trim karakeepApiKey \<noteq> [] \<and> files \<noteq> [] \<Longrightarrow>
   (case processFiles e (removeTrailingSlash (trim karakeepUrl)) (trim karakeepApiKey)
           (length files) files
           (noCounts, loopStartPage (removeTrailingSlash (trim karakeepUrl)) (length files) pg) of
      (thrown, c, pg4) \<Rightarrow>
        fst (startImportProcess e karakeepUrl karakeepApiKey files pg) = Some c \<and>
        logOutput (snd (startImportProcess e karakeepUrl karakeepApiKey files pg)) =
          logOutput pg4 @
          (case thrown of None \<Rightarrow> [] | Some err \<Rightarrow> [FatalError err, ImportHalted]) @
          [SummaryHeader, SummaryTotal (length files),
           SummaryProcessed (filesProcessedCount c),
           SummarySucceeded (filesSyncedSuccessfully c), EndOfRun] \<and>
        filesProcessedCount c \<le> length files \<and>
        \<not> startButton_disabled (snd (startImportProcess e karakeepUrl karakeepApiKey files pg)))"
proof -
  assume valid: "removeTrailingSlash (trim karakeepUrl) \<noteq> [] \<and> trim karakeepApiKey \<noteq> [] \<and>
    files \<noteq> []"
  let ?run = "processFiles e (removeTrailingSlash (trim karakeepUrl)) (trim karakeepApiKey)
           (length files) files
           (noCounts, loopStartPage (removeTrailingSlash (trim karakeepUrl)) (length files) pg)"
  obtain thrown c pg4 where run: "?run = (thrown, c, pg4)"
    using prod_cases3 by blast
  have "filesProcessedCount (fst (snd ?run)) \<le> filesProcessedCount noCounts + length files"
    using processFiles_effects by blast
  with run have bound: "filesProcessedCount c \<le> length files"
    by (simp add: noCounts_def)
  from valid run bound show ?thesis
    by (simp add: startImportProcess_valid summary_def)
qed

theorem startImportProcess_summary_witness:
  "fst (startImportProcess
       (failingDelayEnv (Resolved (jsonResponse 201 (JObject [(''id'', JNumber 42)]))) 1
          (LoopDriverError ''boom''))
       ''http://host/api/v1'' ''key''
       [\<lparr>file_name = ''a.md'', file_read = ReadOk ''A''\<rparr>,
        \<lparr>file_name = ''b.md'', file_read = ReadOk ''B''\<rparr>] emptyPage) =
     Some \<lparr>filesProcessedCount = 1, filesSyncedSuccessfully = 1\<rparr> \<and>
   logOutput (snd (startImportProcess
       (failingDelayEnv (Resolved (jsonResponse 201 (JObject [(''id'', JNumber 42)]))) 1
          (LoopDriverError ''boom''))
       ''http://host/api/v1'' ''key''
       [\<lparr>file_name = ''a.md'', file_read = ReadOk ''A''\<rparr>,
        \<lparr>file_name = ''b.md'', file_read = ReadOk ''B''\<rparr>] emptyPage)) =
     [LogCleared, StartingImport, ProcessingBatch 2,
      ProcessingFile 1 2 ''a.md'', ReadContent ''a.md'' 1, AttemptingCreate ''a'',
      ApiRequest ''POST'' ''http://host/api/v1/bookmarks'',
      ApiResponseOK ''POST'' ''http://host/api/v1/bookmarks'' 201,
      CreatedBookmark ''42'' ''a'',
      FatalError (LoopDriverError ''boom''), ImportHalted,
      SummaryHeader, SummaryTotal 2, SummaryProcessed 1, SummarySucceeded 1, EndOfRun]"
proof -
  let ?e = "failingDelayEnv (Resolved (jsonResponse 201 (JObject [(''id'', JNumber 42)]))) 1
          (LoopDriverError ''boom'')"
  let ?files = "[\<lparr>file_name = ''a.md'', file_read = ReadOk ''A''\<rparr>,
        \<lparr>file_name = ''b.md'', file_read = ReadOk ''B''\<rparr>]"
  have url: "removeTrailingSlash (trim ''http://host/api/v1'') = ''http://host/api/v1''"
    and key: "trim ''key'' = ''key''"
    by code_simp+
  have len: "length ?files = 2"
    by simp
  have run: "processFiles ?e ''http://host/api/v1'' ''key'' 2 ?files
       (noCounts, loopStartPage ''http://host/api/v1'' 2 emptyPage) =
     (Some (LoopDriverError ''boom''),
      \<lparr>filesProcessedCount = 1, filesSyncedSuccessfully = 1\<rparr>,
      \<lparr>logOutput = [LogCleared, StartingImport, ProcessingBatch 2,
                    ProcessingFile 1 2 ''a.md'', ReadContent ''a.md'' 1,
                    AttemptingCreate ''a'',
                    ApiRequest ''POST'' ''http://host/api/v1/bookmarks'',
                    ApiResponseOK ''POST'' ''http://host/api/v1/bookmarks'' 201,
                    CreatedBookmark ''42'' ''a''],
       fetched = [createRequest ''http://host/api/v1'' ''key'' ''a'' ''A''],
       filesRead = [''a.md''], startButton_disabled = True\<rparr>)"
    by code_simp
  have valid: "removeTrailingSlash (trim ''http://host/api/v1'') \<noteq> [] \<and>
      trim ''key'' \<noteq> [] \<and> ?files \<noteq> []"
    by (simp add: url key)
  note inst = startImportProcess_summary [OF valid, of ?e emptyPage]
  from inst show ?thesis
    unfolding url key len run by simp
qed

section \<open>A file that cannot be read\<close>

text \<open>
  C6. Take a run that passes validation over three Markdown files, where the first and the
  third are read and their requests are answered with a usable \<open>id\<close>, the second
  cannot be read, and no delay fails. The run reaches its end with a processed count of 3
  and a succeeded count of 2. Its \<open>catch\<close> blocks write exactly one entry, the
  error entry for the second file with that file's name, so no fatal error is logged. The
  third file is read after the failure, two requests are issued, and the log ends with the
  summary.
\<close>

theorem startImportProcess_continues_after_read_failure:
  assumes "removeTrailingSlash (trim karakeepUrl) = apiUrl \<and> apiUrl \<noteq> [] \<and>
           trim karakeepApiKey = apiKey \<and> apiKey \<noteq> []"
    and "isMarkdownName (file_name f1) \<and> isMarkdownName (file_name f2) \<and>
         isMarkdownName (file_name f3)"
    and "file_read f1 = ReadOk content1 \<and> file_read f2 = ReadFailed code \<and>
         file_read f3 = ReadOk content3"
    and "confirmsCreation (env_fetch e (length (fetched pg))
           (createRequest apiUrl apiKey (getFileNameWithoutExtension (file_name f1)) content1))"
    and "confirmsCreation (env_fetch e (length (fetched pg) + 1)
           (createRequest apiUrl apiKey (getFileNameWithoutExtension (file_name f3)) content3))"
    and "env_sleep e 1 = None \<and> env_sleep e 2 = None \<and> env_sleep e 3 = None"
  shows "fst (startImportProcess e karakeepUrl karakeepApiKey [f1, f2, f3] pg) =
           Some \<lparr>filesProcessedCount = 3, filesSyncedSuccessfully = 2\<rparr> \<and>
         filter isCaughtError
           (logOutput (snd (startImportProcess e karakeepUrl karakeepApiKey [f1, f2, f3] pg))) =
           [FileError (file_name f2) (FileReadFailure (file_name f2) code)] \<and>
         isError (FileError (file_name f2) (FileReadFailure (file_name f2) code)) \<and>
         filesRead (snd (startImportProcess e karakeepUrl karakeepApiKey [f1, f2, f3] pg)) =
           filesRead pg @ [file_name f1, file_name f2, file_name f3] \<and>
         fetched (snd (startImportProcess e karakeepUrl karakeepApiKey [f1, f2, f3] pg)) =
           fetched pg @
             [createRequest apiUrl apiKey (getFileNameWithoutExtension (file_name f1)) content1,
              createRequest apiUrl apiKey (getFileNameWithoutExtension (file_name f3)) content3] \<and>
         drop (length (logOutput (snd (startImportProcess e karakeepUrl karakeepApiKey
                                         [f1, f2, f3] pg))) - 5)
           (logOutput (snd (startImportProcess e karakeepUrl karakeepApiKey [f1, f2, f3] pg))) =
           [SummaryHeader, SummaryTotal 3, SummaryProcessed 3, SummarySucceeded 2, EndOfRun]"
proof -
  let ?pg0 = "loopStartPage apiUrl 3 pg"
  have sleeps: "env_sleep e (Suc 0) = None" "env_sleep e (Suc (Suc 0)) = None"
    "env_sleep e (Suc (Suc (Suc 0))) = None"
    using assms(6) by (simp_all add: numeral_2_eq_2 numeral_3_eq_3)
  have start: "fetched ?pg0 = fetched pg" "filesRead ?pg0 = filesRead pg"
    "filter isCaughtError (logOutput ?pg0) = []"
    by (simp_all add: loopStartPage_def)
  from loopBody_created [of f1 content1 e ?pg0 apiUrl apiKey 3 noCounts] assms
  obtain pg1 where step1: "loopBody e apiUrl apiKey 3 f1 (noCounts, ?pg0) =
        (None, \<lparr>filesProcessedCount = 1, filesSyncedSuccessfully = 1\<rparr>, pg1)"
    and pg1: "fetched pg1 = fetched pg @
        [createRequest apiUrl apiKey (getFileNameWithoutExtension (file_name f1)) content1]"
      "filesRead pg1 = filesRead pg @ [file_name f1]"
      "filter isCaughtError (logOutput pg1) = []"
    by (auto simp: start noCounts_def sleeps)
  let ?c1 = "\<lparr>filesProcessedCount = 1, filesSyncedSuccessfully = 1\<rparr>"
  let ?c2 = "\<lparr>filesProcessedCount = 2, filesSyncedSuccessfully = 1\<rparr>"
  let ?c3 = "\<lparr>filesProcessedCount = 3, filesSyncedSuccessfully = 2\<rparr>"
  define pg2 where "pg2 = pg1\<lparr>logOutput := logOutput pg1 @
                   [ProcessingFile 2 3 (file_name f2),
                    FileError (file_name f2) (FileReadFailure (file_name f2) code)],
               filesRead := filesRead pg1 @ [file_name f2]\<rparr>"
  have step2: "loopBody e apiUrl apiKey 3 f2 (?c1, pg1) = (None, ?c2, pg2)"
    using loopBody_read_failed [of f2 code e apiUrl apiKey 3 ?c1 pg1] assms
    by (simp add: pg2_def sleeps)
  have pg2: "fetched pg2 = fetched pg1" "filesRead pg2 = filesRead pg1 @ [file_name f2]"
    "filter isCaughtError (logOutput pg2) =
       [FileError (file_name f2) (FileReadFailure (file_name f2) code)]"
    by (simp_all add: pg2_def pg1)
  from loopBody_created [of f3 content3 e pg2 apiUrl apiKey 3 ?c2] assms
  obtain pg3 where step3: "loopBody e apiUrl apiKey 3 f3 (?c2, pg2) = (None, ?c3, pg3)"
    and pg3: "fetched pg3 = fetched pg2 @
        [createRequest apiUrl apiKey (getFileNameWithoutExtension (file_name f3)) content3]"
      "filesRead pg3 = filesRead pg2 @ [file_name f3]"
      "filter isCaughtError (logOutput pg3) = filter isCaughtError (logOutput pg2)"
    by (auto simp: pg2 pg1 sleeps)
  have run: "processFiles e apiUrl apiKey 3 [f1, f2, f3] (noCounts, ?pg0) = (None, ?c3, pg3)"
    by (simp only: processFiles.simps step1 step2 step3 prod.case option.case)
  from assms(1) have v: "removeTrailingSlash (trim karakeepUrl) \<noteq> []"
      "trim karakeepApiKey \<noteq> []" "[f1, f2, f3] \<noteq> []"
    and u: "removeTrailingSlash (trim karakeepUrl) = apiUrl" "trim karakeepApiKey = apiKey"
    by simp_all
  have len: "length [f1, f2, f3] = 3"
    by simp
  note whole = startImportProcess_valid
      [OF v, of e pg, unfolded u len run prod.case option.case]
  show ?thesis
    unfolding whole
    by (simp add: pg3 pg2 pg1 summary_def)
qed

theorem startImportProcess_continues_after_read_failure_witness:
  "fst (startImportProcess
          (constantEnv (Resolved (jsonResponse 201 (JObject [(''id'', JNumber 42)]))))
          ''http://host/api/v1'' ''key''
          [\<lparr>file_name = ''a.md'', file_read = ReadOk ''A''\<rparr>,
           \<lparr>file_name = ''b.md'', file_read = ReadFailed 4\<rparr>,
           \<lparr>file_name = ''c.md'', file_read = ReadOk ''C''\<rparr>] emptyPage) =
     Some \<lparr>filesProcessedCount = 3, filesSyncedSuccessfully = 2\<rparr> \<and>
   filter isCaughtError (logOutput (snd (startImportProcess
          (constantEnv (Resolved (jsonResponse 201 (JObject [(''id'', JNumber 42)]))))
          ''http://host/api/v1'' ''key''
          [\<lparr>file_name = ''a.md'', file_read = ReadOk ''A''\<rparr>,
           \<lparr>file_name = ''b.md'', file_read = ReadFailed 4\<rparr>,
           \<lparr>file_name = ''c.md'', file_read = ReadOk ''C''\<rparr>] emptyPage))) =
     [FileError ''b.md'' (FileReadFailure ''b.md'' 4)]"
proof -
  let ?e = "constantEnv (Resolved (jsonResponse 201 (JObject [(''id'', JNumber 42)])))"
  let ?a = "\<lparr>file_name = ''a.md'', file_read = ReadOk ''A''\<rparr>"
  let ?b = "\<lparr>file_name = ''b.md'', file_read = ReadFailed 4\<rparr>"
  let ?c = "\<lparr>file_name = ''c.md'', file_read = ReadOk ''C''\<rparr>"
  have inputs: "removeTrailingSlash (trim ''http://host/api/v1'') = ''http://host/api/v1'' \<and>
      ''http://host/api/v1'' \<noteq> [] \<and> trim ''key'' = ''key'' \<and> ''key'' \<noteq> []"
    by code_simp
  have names: "isMarkdownName (file_name ?a) \<and> isMarkdownName (file_name ?b) \<and>
      isMarkdownName (file_name ?c)"
    by code_simp
  have reads: "file_read ?a = ReadOk ''A'' \<and> file_read ?b = ReadFailed 4 \<and>
      file_read ?c = ReadOk ''C''"
    by simp
  have remote: "confirmsCreation (env_fetch ?e k req)" for k req
    by (simp add: constantEnv_def confirmsCreation_def jsonResponse_def ok_def usableId_simps)
  have delays: "env_sleep ?e 1 = None \<and> env_sleep ?e 2 = None \<and> env_sleep ?e 3 = None"
    by (simp add: constantEnv_def)
  note inst = startImportProcess_continues_after_read_failure
      [OF inputs names reads remote remote delays, of emptyPage]
  from inst show ?thesis
    by simp
qed

section \<open>The file named .md\<close>

text \<open>
  C10. The name \<open>.md\<close> passes the extension test and its derived title is the empty
  string, which truncation leaves empty. In a run that passes validation over the single
  file \<open>.md\<close> whose content is read, the file is handed to the reader and one POST is
  issued whose payload has the empty string as title.
\<close>

theorem dot_md_is_imported_with_empty_title:
  "removeTrailingSlash (trim karakeepUrl) \<noteq> [] \<and> trim karakeepApiKey \<noteq> [] \<Longrightarrow>
   isMarkdownName ''.md'' \<and>
   getFileNameWithoutExtension ''.md'' = [] \<and>
   truncateTitle [] = [] \<and>
   fetched (snd (startImportProcess e karakeepUrl karakeepApiKey
                   [\<lparr>file_name = ''.md'', file_read = ReadOk content\<rparr>] pg)) =
     fetched pg @
       [requestOptions (removeTrailingSlash (trim karakeepUrl) @ ''/bookmarks'') ''POST''
          (trim karakeepApiKey)
          (Some \<lparr>p_title = [], p_text = content, p_type = ''text'',
                 p_archived = False, p_favourited = False,
                 p_note = ''Imported from Markdown file: .md'', p_summary = []\<rparr>)] \<and>
   filesRead (snd (startImportProcess e karakeepUrl karakeepApiKey
                     [\<lparr>file_name = ''.md'', file_read = ReadOk content\<rparr>] pg)) =
     filesRead pg @ [''.md'']"
proof -
  assume valid: "removeTrailingSlash (trim karakeepUrl) \<noteq> [] \<and> trim karakeepApiKey \<noteq> []"
  let ?f = "\<lparr>file_name = ''.md'', file_read = ReadOk content\<rparr>"
  let ?url = "removeTrailingSlash (trim karakeepUrl)"
  let ?key = "trim karakeepApiKey"
  let ?pg0 = "loopStartPage ?url 1 pg"
  have md: "isMarkdownName ''.md''"
    by code_simp
  have title: "getFileNameWithoutExtension ''.md'' = []"
    by (simp add: extensionAt_def)
  have short: "truncateTitle [] = []"
    by (simp add: truncateTitle_def truncateTitleTo_def)
  obtain thrown c1 pg1 where step: "loopBody e ?url ?key 1 ?f (noCounts, ?pg0) = (thrown, c1, pg1)"
    using prod_cases3 by blast
  have "fetched (snd (snd (loopBody e ?url ?key 1 ?f (noCounts, ?pg0)))) =
          fetched pg @ [createRequest ?url ?key [] content]"
    and "filesRead (snd (snd (loopBody e ?url ?key 1 ?f (noCounts, ?pg0)))) =
          filesRead pg @ [''.md'']"
    using md
    by (simp_all add: loopBody_markdown importFile_read_ok extensionAt_def loopStartPage_def)
  with step have pg1: "fetched pg1 = fetched pg @ [createRequest ?url ?key [] content]"
    "filesRead pg1 = filesRead pg @ [''.md'']"
    by simp_all
  have run: "processFiles e ?url ?key 1 [?f] (noCounts, ?pg0) = (thrown, c1, pg1)"
    using step by (cases thrown) simp_all
  have len: "length [?f] = 1"
    by simp
  from valid have v: "?url \<noteq> []" "?key \<noteq> []" "[?f] \<noteq> []"
    by simp_all
  note whole = startImportProcess_valid [OF v, of e pg, unfolded len run prod.case]
  show ?thesis
    unfolding whole using md title short
    by (simp add: pg1 createRequest_def bookmarkPayload_def)
qed

theorem dot_md_is_imported_with_empty_title_witness:
  "fetched (snd (startImportProcess (constantEnv (Rejected ''offline''))
                   ''http://host/api/v1/'' ''key''
                   [\<lparr>file_name = ''.md'', file_read = ReadOk ''# Untitled''\<rparr>] emptyPage)) =
     [\<lparr>req_url = ''http://host/api/v1/bookmarks'', req_method = ''POST'',
       req_headers = [(''Authorization'', ''Bearer key''),
                      (''Content-Type'', ''application/json''),
                      (''Accept'', ''application/json'')],
       req_body = Some
         \<lparr>p_title = [], p_text = ''# Untitled'', p_type = ''text'',
          p_archived = False, p_favourited = False,
          p_note = ''Imported from Markdown file: .md'', p_summary = []\<rparr>\<rparr>]"
proof -
  have url: "removeTrailingSlash (trim ''http://host/api/v1/'') = ''http://host/api/v1''"
    and key: "trim ''key'' = ''key''"
    by code_simp+
  have valid: "removeTrailingSlash (trim ''http://host/api/v1/'') \<noteq> [] \<and> trim ''key'' \<noteq> []"
    by (simp add: url key)
  note inst = dot_md_is_imported_with_empty_title
      [OF valid, of "constantEnv (Rejected ''offline'')" "''# Untitled''" emptyPage,
        unfolded url key]
  from inst show ?thesis
    by (simp add: emptyPage_def requestOptions_def)
qed

end
